theory Spec2Isabelle
  imports Main
begin

section \<open>Lunar birthdays: the data model\<close>

text \<open>
  The repository holds two pipelines: \<^verbatim>\<open>lunar_birthdays.py\<close> (batch mode: one concrete
  event per record and year, split over several files) and \<^verbatim>\<open>main.py\<close>
  (single-conversion mode: one yearly-repeating event per record, one file).

  A row of the CSV file is the \<^verbatim>\<open>BirthdayRow\<close> TypedDict of four strings; a loaded birthday
  is the dict with keys \<^verbatim>\<open>name\<close>, \<^verbatim>\<open>year\<close>, \<^verbatim>\<open>month\<close>, \<^verbatim>\<open>day\<close>, the last three being Python
  ints (unbounded, hence \<open>int\<close>).
\<close>

record BirthdayRow =
  row_name :: string
  row_year :: string
  row_month :: string
  row_day :: string

record birthday =
  name :: string
  year :: int
  month :: int
  day :: int

text \<open>
  \<^verbatim>\<open>Lunar(year, month, day, isleap=False)\<close> of the lunarcalendar package. A solar date
  (\<^verbatim>\<open>datetime.date\<close>) is its proleptic ordinal, so that \<^verbatim>\<open>+ timedelta(days=1)\<close> is \<open>+ 1\<close>.
\<close>

record Lunar =
  lunar_year :: int
  lunar_month :: int
  lunar_day :: int
  isleap :: bool

type_synonym date = int
type_synonym timestamp = int

text \<open>The exceptions that can reach the code; \<open>OtherException\<close> carries the class name.\<close>

datatype exn = FileNotFoundError | ValueError string | DateNotExist | IndexError | OtherException string

text \<open>
  What the code takes from outside itself:
  \<^item> \<open>Lunar2Solar\<close>: \<^verbatim>\<open>Converter.Lunar2Solar(Lunar(...)).to_date()\<close>, which returns a date
    or raises: \<open>Inl DateNotExist\<close> is the exception the code catches, \<open>Inl\<close> of anything
    else is an exception the code does not catch (the converter indexes a table of lunar
    years, so a year outside the table raises \<^verbatim>\<open>IndexError\<close>);
  \<^item> \<open>now\<close>: the value of the k-th call of \<^verbatim>\<open>datetime.now()\<close> during the run;
  \<^item> \<open>py_int\<close>: the builtin \<^verbatim>\<open>int(str)\<close>; \<open>Inl msg\<close> is a \<^verbatim>\<open>ValueError\<close> whose
    \<^verbatim>\<open>str(e)\<close> is \<open>msg\<close>.
\<close>

record env =
  Lunar2Solar :: "Lunar \<Rightarrow> exn + date"
  now :: "nat \<Rightarrow> timestamp"
  py_int :: "string \<Rightarrow> string + int"

text \<open>An \<^verbatim>\<open>icalendar.Event\<close> with the properties the code adds, and a \<^verbatim>\<open>Calendar\<close>.\<close>

record Event =
  summary :: string
  summary_params :: "(string \<times> string) list"
  dtstart :: date
  dtend :: date
  rrule :: "(string \<times> string) list option"
  dtstamp :: timestamp

record Calendar =
  props :: "(string \<times> string) list"
  components :: "Event list"

text \<open>
  The world the program acts on: the CSV files that exist (each as the rows
  \<^verbatim>\<open>csv.DictReader\<close> yields), the files written so far, in order, the lines printed so far,
  and the number of calls of \<^verbatim>\<open>datetime.now()\<close> made so far.
\<close>

record world =
  csv_files :: "string \<rightharpoonup> BirthdayRow list"
  written :: "(string \<times> Calendar) list"
  stdout :: "string list"
  ticks :: nat

text \<open>How a run ends: \<^verbatim>\<open>main\<close> returns, \<^verbatim>\<open>sys.exit(n)\<close>, or an exception nobody catches.\<close>

datatype outcome = Returned | SysExit int | Uncaught exn

fun exit_status :: "outcome \<Rightarrow> int" where
  "exit_status Returned = 0"
| "exit_status (SysExit n) = n"
| "exit_status (Uncaught e) = 1"

section \<open>Python builtins used by the code\<close>

text \<open>\<^verbatim>\<open>str(n)\<close> of an int, as the f-strings format years, months and days.\<close>

definition digit_char :: "nat \<Rightarrow> char" where
  "digit_char d = ''0123456789'' ! d"

fun str_nat :: "nat \<Rightarrow> string" where
  "str_nat n = (if n < 10 then [digit_char n] else str_nat (n div 10) @ [digit_char (n mod 10)])"

declare str_nat.simps [simp del]

definition str_int :: "int \<Rightarrow> string" where
  "str_int i = (if i < 0 then CHR ''-'' # str_nat (nat (- i)) else str_nat (nat i))"

text \<open>
  \<^verbatim>\<open>range(start, stop, step)\<close>: ascending for a positive step, descending for a negative
  one, \<^verbatim>\<open>ValueError\<close> for step 0.
\<close>

function range_up :: "int \<Rightarrow> int \<Rightarrow> int \<Rightarrow> int list" where
  "range_up i stop step =
     (if 0 < step \<and> i < stop then i # range_up (i + step) stop step else [])"
  by pat_completeness auto
termination
  by (relation "measure (\<lambda>(i, stop, step). nat (stop - i))") auto

function range_down :: "int \<Rightarrow> int \<Rightarrow> int \<Rightarrow> int list" where
  "range_down i stop step =
     (if step < 0 \<and> stop < i then i # range_down (i + step) stop step else [])"
  by pat_completeness auto
termination
  by (relation "measure (\<lambda>(i, stop, step). nat (i - stop))") auto

declare range_up.simps [simp del] range_down.simps [simp del]

definition py_range3 :: "int \<Rightarrow> int \<Rightarrow> int \<Rightarrow> exn + int list" where
  "py_range3 start stop step =
     (if step = 0 then Inl (ValueError ''range() arg 3 must not be zero'')
      else if 0 < step then Inr (range_up start stop step)
      else Inr (range_down start stop step))"

definition py_range2 :: "int \<Rightarrow> int \<Rightarrow> int list" where
  "py_range2 start stop = range_up start stop 1"

section \<open>The loader (the same in both files)\<close>

text \<open>
  One row: the dict literal evaluates \<^verbatim>\<open>int(row['year'])\<close>, \<^verbatim>\<open>int(row['month'])\<close>,
  \<^verbatim>\<open>int(row['day'])\<close> in this order; the first \<^verbatim>\<open>ValueError\<close> leaves the loop.
\<close>

definition load_row :: "env \<Rightarrow> BirthdayRow \<Rightarrow> exn + birthday" where
  "load_row E r =
     (case py_int E (row_year r) of Inl m \<Rightarrow> Inl (ValueError m) | Inr y \<Rightarrow>
      (case py_int E (row_month r) of Inl m \<Rightarrow> Inl (ValueError m) | Inr mo \<Rightarrow>
       (case py_int E (row_day r) of Inl m \<Rightarrow> Inl (ValueError m) | Inr d \<Rightarrow>
          Inr \<lparr>name = row_name r, year = y, month = mo, day = d\<rparr>)))"

fun load_rows :: "env \<Rightarrow> BirthdayRow list \<Rightarrow> birthday list \<Rightarrow> exn + birthday list" where
  "load_rows E [] birthdays = Inr birthdays"
| "load_rows E (r # rs) birthdays =
     (case load_row E r of
        Inl e \<Rightarrow> Inl e
      | Inr b \<Rightarrow> load_rows E rs (birthdays @ [b]))"

text \<open>
  \<^verbatim>\<open>read_lunar_birthdays\<close>: both handlers print one line and call \<^verbatim>\<open>sys.exit(1)\<close>; any
  other exception would pass through uncaught. The result is either the way the run ends or
  the list of birthdays, with the world after the prints.
\<close>

definition read_lunar_birthdays :: "env \<Rightarrow> string \<Rightarrow> world \<Rightarrow> (outcome + birthday list) \<times> world" where
  "read_lunar_birthdays E file_path w =
     (case (case csv_files w file_path of
              None \<Rightarrow> Inl FileNotFoundError
            | Some rows \<Rightarrow> load_rows E rows []) of
        Inl e \<Rightarrow>
          (case e of
             FileNotFoundError \<Rightarrow>
               (Inl (SysExit 1),
                w\<lparr>stdout := stdout w @ [''Error: File '' @ [CHR 0x27] @ file_path @ [CHR 0x27] @ '' not found.'']\<rparr>)
           | ValueError m \<Rightarrow>
               (Inl (SysExit 1),
                w\<lparr>stdout := stdout w @ [''Error: Invalid data in CSV file. '' @ m]\<rparr>)
           | _ \<Rightarrow> (Inl (Uncaught e), w))
      | Inr birthdays \<Rightarrow> (Inr birthdays, w))"

section \<open>Batch mode: \<^verbatim>\<open>lunar_birthdays.py\<close>\<close>

text \<open>
  The projection of a birthday into a lunar year: \<^verbatim>\<open>Lunar(year, birthday['month'],
  birthday['day'], isleap=False)\<close> handed to the converter (lines 78-79 of
  \<^verbatim>\<open>lunar_birthdays.py\<close>, 76-77 of \<^verbatim>\<open>main.py\<close>).
\<close>

definition project :: "env \<Rightarrow> birthday \<Rightarrow> int \<Rightarrow> exn + date" where
  "project E b y =
     Lunar2Solar E \<lparr>lunar_year = y, lunar_month = month b, lunar_day = day b, isleap = False\<rparr>"

text \<open>
  The event that lines 82-88 build from the solar date and the value of
  \<^verbatim>\<open>datetime.now()\<close>; the \<^verbatim>\<open>rrule\<close> line is commented out in this file.
\<close>

definition birthday_event :: "birthday \<Rightarrow> date \<Rightarrow> timestamp \<Rightarrow> Event" where
  "birthday_event b solar_date stamp =
     \<lparr>summary = name b @ [CHR 0x27] @ ''s birthday'',
      summary_params = [(''CHARSET'', ''UTF-8'')],
      dtstart = solar_date,
      dtend = solar_date + 1,
      rrule = None,
      dtstamp = stamp\<rparr>"

text \<open>
  \<^verbatim>\<open>create_birthday_event(birthday, year)\<close>: the conversion may raise, before any event is
  built and before the clock is read; nothing in this function catches.
\<close>

definition create_birthday_event :: "env \<Rightarrow> birthday \<Rightarrow> int \<Rightarrow> world \<Rightarrow> exn + (Event \<times> world)" where
  "create_birthday_event E b y w =
     (case project E b y of
        Inl x \<Rightarrow> Inl x
      | Inr solar_date \<Rightarrow>
          Inr (birthday_event b solar_date (now E (ticks w)), w\<lparr>ticks := Suc (ticks w)\<rparr>))"

text \<open>
  The two loops of \<^verbatim>\<open>generate_ics\<close> (lines 108-114), on the calendar being filled and the
  world. \<^verbatim>\<open>except DateNotExist\<close> catches that exception only and prints the warning, which
  names the birthday's own \<^verbatim>\<open>year\<close>, \<^verbatim>\<open>month\<close> and \<^verbatim>\<open>day\<close>; any other exception leaves both
  loops at once. The result says whether an exception left the loops, and gives the calendar
  and the world at that moment.
\<close>

definition warning_line :: "birthday \<Rightarrow> string" where
  "warning_line b =
     ''Warning: Invalid lunar date: '' @ str_int (year b) @ ''-'' @ str_int (month b) @ ''-'' @ str_int (day b)"

fun year_loop :: "env \<Rightarrow> birthday \<Rightarrow> int list \<Rightarrow> Calendar \<times> world \<Rightarrow> exn option \<times> Calendar \<times> world" where
  "year_loop E b [] cw = (None, cw)"
| "year_loop E b (y # ys) (cal, w) =
     (case create_birthday_event E b y w of
        Inr (event, w') \<Rightarrow>
          year_loop E b ys (cal\<lparr>components := components cal @ [event]\<rparr>, w')
      | Inl x \<Rightarrow>
          if x = DateNotExist
          then year_loop E b ys (cal, w\<lparr>stdout := stdout w @ [warning_line b]\<rparr>)
          else (Some x, cal, w))"

fun birthday_loop :: "env \<Rightarrow> birthday list \<Rightarrow> int \<Rightarrow> int \<Rightarrow> Calendar \<times> world \<Rightarrow> exn option \<times> Calendar \<times> world" where
  "birthday_loop E [] start_year end_year cw = (None, cw)"
| "birthday_loop E (b # bs) start_year end_year cw =
     (case year_loop E b (py_range2 start_year (end_year + 1)) cw of
        (None, cw') \<Rightarrow> birthday_loop E bs start_year end_year cw'
      | (Some x, cw') \<Rightarrow> (Some x, cw'))"

definition new_calendar :: Calendar where
  "new_calendar =
     \<lparr>props = [(''prodid'', ''-//Haeward//Lunar Birthdays//CN''), (''version'', ''2.0''),
               (''calscale'', ''GREGORIAN''), (''charset'', ''UTF-8'')],
      components = []\<rparr>"

text \<open>
  \<^verbatim>\<open>generate_ics\<close>: the file is opened and written (lines 117-118) only when the loops end
  without an exception; otherwise the exception goes on to the caller and no file is written.
\<close>

definition generate_ics :: "env \<Rightarrow> birthday list \<Rightarrow> string \<Rightarrow> int \<Rightarrow> int \<Rightarrow> world \<Rightarrow> exn option \<times> world" where
  "generate_ics E birthdays output_file_path start_year end_year w =
     (case birthday_loop E birthdays start_year end_year (new_calendar, w) of
        (None, cal, w') \<Rightarrow> (None, w'\<lparr>written := written w' @ [(output_file_path, cal)]\<rparr>)
      | (Some x, cal, w') \<Rightarrow> (Some x, w'))"

text \<open>
  The command line of batch mode as \<^verbatim>\<open>parse_args\<close> returns it (lines 122-131: the defaults
  are applied, and the clock has been read once for the default start year).
\<close>

record args =
  input_csv :: string
  output_ics_prefix :: string
  years :: int
  start_year :: int
  batch_size :: int

text \<open>The window of one iteration of the loop in \<^verbatim>\<open>main\<close>, and the file name it gets.\<close>

definition window_end :: "args \<Rightarrow> int \<Rightarrow> int" where
  "window_end a y = min (y + batch_size a - 1) (start_year a + years a - 1)"

definition window_path :: "args \<Rightarrow> int \<Rightarrow> string" where
  "window_path a y =
     (if y = window_end a y
      then output_ics_prefix a @ ''_'' @ str_int y @ ''.ics''
      else output_ics_prefix a @ ''_'' @ str_int y @ ''-'' @ str_int (window_end a y) @ ''.ics'')"

fun window_loop :: "env \<Rightarrow> args \<Rightarrow> birthday list \<Rightarrow> int list \<Rightarrow> world \<Rightarrow> outcome \<times> world" where
  "window_loop E a birthdays [] w = (Returned, w)"
| "window_loop E a birthdays (y # ys) w =
     (case generate_ics E birthdays (window_path a y) y (window_end a y) w of
        (Some x, w') \<Rightarrow> (Uncaught x, w')
      | (None, w') \<Rightarrow>
          window_loop E a birthdays ys
            (w'\<lparr>stdout := stdout w' @ [''ICS file generated successfully: '' @ window_path a y]\<rparr>))"

text \<open>
  \<^verbatim>\<open>main\<close> from line 133 on, in the world as it is after \<^verbatim>\<open>parse_args\<close> (so \<open>ticks\<close> counts
  the clock reading of line 122). Nothing in \<^verbatim>\<open>main\<close> catches an exception.
\<close>

definition main :: "env \<Rightarrow> args \<Rightarrow> world \<Rightarrow> outcome \<times> world" where
  "main E a w =
     (case read_lunar_birthdays E (input_csv a) w of
        (Inl out, w') \<Rightarrow> (out, w')
      | (Inr lunar_birthdays, w') \<Rightarrow>
          (case py_range3 (start_year a) (start_year a + years a) (batch_size a) of
             Inl e \<Rightarrow> (Uncaught e, w')
           | Inr ys \<Rightarrow> window_loop E a lunar_birthdays ys w'))"

text \<open>The year windows the loop of \<^verbatim>\<open>main\<close> visits, as (first year, last year) pairs.\<close>

definition windows :: "args \<Rightarrow> (int \<times> int) list" where
  "windows a =
     (case py_range3 (start_year a) (start_year a + years a) (batch_size a) of
        Inl e \<Rightarrow> []
      | Inr ys \<Rightarrow> map (\<lambda>y. (y, window_end a y)) ys)"

section \<open>Single-conversion mode: \<^verbatim>\<open>main.py\<close>\<close>

text \<open>
  \<^verbatim>\<open>create_birthday_event(birthday)\<close> of \<^verbatim>\<open>main.py\<close>: the lunar year is the birthday's own
  \<^verbatim>\<open>year\<close>, the summary has no parameters, and the event has
  \<^verbatim>\<open>rrule = {'freq': 'yearly'}\<close>.
\<close>

definition birthday_event_single :: "birthday \<Rightarrow> date \<Rightarrow> timestamp \<Rightarrow> Event" where
  "birthday_event_single b solar_date stamp =
     \<lparr>summary = name b @ [CHR 0x27] @ ''s birthday'',
      summary_params = [],
      dtstart = solar_date,
      dtend = solar_date + 1,
      rrule = Some [(''freq'', ''yearly'')],
      dtstamp = stamp\<rparr>"

definition create_birthday_event_single :: "env \<Rightarrow> birthday \<Rightarrow> world \<Rightarrow> exn + (Event \<times> world)" where
  "create_birthday_event_single E b w =
     (case project E b (year b) of
        Inl x \<Rightarrow> Inl x
      | Inr solar_date \<Rightarrow>
          Inr (birthday_event_single b solar_date (now E (ticks w)), w\<lparr>ticks := Suc (ticks w)\<rparr>))"

text \<open>
  The loop of \<^verbatim>\<open>generate_ics_file\<close> (lines 102-107): as in batch mode, only
  \<^verbatim>\<open>DateNotExist\<close> is caught.
\<close>

fun birthday_loop_single :: "env \<Rightarrow> birthday list \<Rightarrow> Calendar \<times> world \<Rightarrow> exn option \<times> Calendar \<times> world" where
  "birthday_loop_single E [] cw = (None, cw)"
| "birthday_loop_single E (b # bs) (cal, w) =
     (case create_birthday_event_single E b w of
        Inr (event, w') \<Rightarrow>
          birthday_loop_single E bs (cal\<lparr>components := components cal @ [event]\<rparr>, w')
      | Inl x \<Rightarrow>
          if x = DateNotExist
          then birthday_loop_single E bs (cal, w\<lparr>stdout := stdout w @ [warning_line b]\<rparr>)
          else (Some x, cal, w))"

definition new_calendar_single :: Calendar where
  "new_calendar_single =
     \<lparr>props = [(''prodid'', ''-//Haeward//Lunar Birthdays//CN''), (''version'', ''2.0'')],
      components = []\<rparr>"

definition generate_ics_file :: "env \<Rightarrow> birthday list \<Rightarrow> string \<Rightarrow> world \<Rightarrow> exn option \<times> world" where
  "generate_ics_file E birthdays output_file_path w =
     (case birthday_loop_single E birthdays (new_calendar_single, w) of
        (None, cal, w') \<Rightarrow> (None, w'\<lparr>written := written w' @ [(output_file_path, cal)]\<rparr>)
      | (Some x, cal, w') \<Rightarrow> (Some x, w'))"

definition main_single :: "env \<Rightarrow> string \<Rightarrow> string \<Rightarrow> world \<Rightarrow> outcome \<times> world" where
  "main_single E input_csv_path output_ics_path w =
     (case read_lunar_birthdays E input_csv_path w of
        (Inl out, w') \<Rightarrow> (out, w')
      | (Inr lunar_birthdays, w') \<Rightarrow>
          (case generate_ics_file E lunar_birthdays output_ics_path w' of
             (Some x, w'') \<Rightarrow> (Uncaught x, w'')
           | (None, w'') \<Rightarrow>
               (Returned,
                w''\<lparr>stdout := stdout w'' @ [''ICS file generated successfully: '' @ output_ics_path]\<rparr>)))"

section \<open>Example inputs\<close>

text \<open>The command line \<^verbatim>\<open>birthdays.csv out --start-year 2024 --years 120 --batch-size 50\<close>.\<close>

definition args_2024 :: args where
  "args_2024 = \<lparr>input_csv = ''birthdays.csv'', output_ics_prefix = ''out'',
                years = 120, start_year = 2024, batch_size = 50\<rparr>"

text \<open>
  A stand-in for the converter. Its table ends at the lunar year 2111: a later year raises
  \<^verbatim>\<open>IndexError\<close>. Within the table the calendar has twelve months, and month \<open>m\<close> of year
  \<open>y\<close> has 30 days when \<open>y + m\<close> is even and 29 days otherwise; any other date raises
  \<^verbatim>\<open>DateNotExist\<close>.
\<close>

definition demo_convert :: "Lunar \<Rightarrow> exn + date" where
  "demo_convert l =
     (if 2111 < lunar_year l then Inl IndexError
      else if 1 \<le> lunar_month l \<and> lunar_month l \<le> 12 \<and> 1 \<le> lunar_day l \<and>
              lunar_day l \<le> (if even (lunar_year l + lunar_month l) then 30 else 29)
      then Inr (lunar_year l * 354 + (lunar_month l - 1) * 30 + lunar_day l)
      else Inl DateNotExist)"

text \<open>A stand-in for \<^verbatim>\<open>int(str)\<close>: an optional minus sign and decimal digits.\<close>

definition is_digit :: "char \<Rightarrow> bool" where
  "is_digit c = (48 \<le> (of_char c :: nat) \<and> (of_char c :: nat) \<le> 57)"

fun digits_value :: "string \<Rightarrow> nat \<Rightarrow> nat" where
  "digits_value [] acc = acc"
| "digits_value (c # cs) acc = digits_value cs (10 * acc + (of_char c - 48))"

definition demo_int :: "string \<Rightarrow> string + int" where
  "demo_int s =
     (case s of
        [] \<Rightarrow> Inl (''invalid literal for int() with base 10: '' @ [CHR 0x27, CHR 0x27])
      | c # cs \<Rightarrow>
          if c = CHR ''-'' \<and> cs \<noteq> [] \<and> list_all is_digit cs then Inr (- int (digits_value cs 0))
          else if list_all is_digit s then Inr (int (digits_value s 0))
          else Inl (''invalid literal for int() with base 10: '' @ [CHR 0x27] @ s @ [CHR 0x27]))"

definition demo_env :: env where
  "demo_env = \<lparr>Lunar2Solar = demo_convert, now = (\<lambda>k. 1000 + int k), py_int = demo_int\<rparr>"

text \<open>Birthdays, CSV rows and a world to run the program in.\<close>

definition birthday_A :: birthday where
  "birthday_A = \<lparr>name = ''A'', year = 1990, month = 1, day = 15\<rparr>"

definition birthday_B :: birthday where
  "birthday_B = \<lparr>name = ''B'', year = 1985, month = 3, day = 7\<rparr>"

definition birthday_C :: birthday where
  "birthday_C = \<lparr>name = ''C'', year = 1990, month = 12, day = 30\<rparr>"

definition birthday_D :: birthday where
  "birthday_D = \<lparr>name = ''D'', year = 2000, month = 2, day = 31\<rparr>"


definition good_rows :: "BirthdayRow list" where
  "good_rows =
     [\<lparr>row_name = ''A'', row_year = ''1990'', row_month = ''1'', row_day = ''15''\<rparr>,
      \<lparr>row_name = ''C'', row_year = ''1990'', row_month = ''12'', row_day = ''30''\<rparr>]"

definition bad_rows :: "BirthdayRow list" where
  "bad_rows =
     [\<lparr>row_name = ''A'', row_year = ''1990'', row_month = ''1'', row_day = ''15''\<rparr>,
      \<lparr>row_name = ''D'', row_year = ''2000'', row_month = ''2'', row_day = ''x''\<rparr>]"

definition demo_world :: world where
  "demo_world =
     \<lparr>csv_files = (\<lambda>p. if p = ''birthdays.csv'' then Some good_rows
                        else if p = ''bad.csv'' then Some bad_rows else None),
      written = [], stdout = [], ticks = 0\<rparr>"

text \<open>The command line \<^verbatim>\<open>bad.csv out --start-year 2025\<close>; the second row of the file has the day \<^verbatim>\<open>x\<close>.\<close>

definition args_bad :: args where
  "args_bad = \<lparr>input_csv = ''bad.csv'', output_ics_prefix = ''out'',
               years = 50, start_year = 2025, batch_size = 50\<rparr>"

text \<open>The command line \<^verbatim>\<open>birthdays.csv out --start-year 2024 --years 5 --batch-size 2\<close>.\<close>

definition args_small :: args where
  "args_small = \<lparr>input_csv = ''birthdays.csv'', output_ics_prefix = ''out'',
                 years = 5, start_year = 2024, batch_size = 2\<rparr>"

section \<open>Python's range\<close>

lemma range_up_nil: "\<not> (0 < step \<and> i < stop) \<Longrightarrow> range_up i stop step = []"
  by (subst range_up.simps) simp

lemma range_up_cons: "0 < step \<Longrightarrow> i < stop \<Longrightarrow> range_up i stop step = i # range_up (i + step) stop step"
  by (subst range_up.simps) simp

lemma range_up_one: "range_up i stop 1 = [i..stop - 1]"
proof (induction i stop "1::int" rule: range_up.induct)
  case (1 i stop)
  show ?case
  proof (cases "i < stop")
    case True
    then have "range_up i stop 1 = i # [i + 1..stop - 1]" using 1 by (simp add: range_up_cons)
    also have "\<dots> = [i..stop - 1]" using True by (simp add: upto_rec1)
    finally show ?thesis .
  next
    case False
    then show ?thesis by (simp add: range_up_nil)
  qed
qed

lemma range_up_cover:
  "0 < k \<Longrightarrow> concat (map (\<lambda>y. [y..min (y + k - 1) (stop - 1)]) (range_up i stop k)) = [i..stop - 1]"
proof (induction i stop k rule: range_up.induct)
  case (1 i stop k)
  show ?case
  proof (cases "i < stop")
    case False
    then show ?thesis by (simp add: range_up_nil)
  next
    case True
    have ih: "concat (map (\<lambda>y. [y..min (y + k - 1) (stop - 1)]) (range_up (i + k) stop k)) = [i + k..stop - 1]"
      using 1 True by simp
    show ?thesis
    proof (cases "i + k < stop")
      case True
      then have m: "min (i + k - 1) (stop - 1) = i + k - 1" by simp
      have "[i..stop - 1] = [i..i + k - 1] @ [i + k..stop - 1]"
        using True \<open>0 < k\<close> upto_split2[of i "i + k - 1" "stop - 1"] by simp
      then show ?thesis using \<open>i < stop\<close> \<open>0 < k\<close> ih m by (simp add: range_up_cons)
    next
      case False
      then have m: "min (i + k - 1) (stop - 1) = stop - 1" by simp
      have "range_up (i + k) stop k = []" using False by (simp add: range_up_nil)
      then show ?thesis using \<open>i < stop\<close> \<open>0 < k\<close> m by (simp add: range_up_cons)
    qed
  qed
qed

lemma range_up_bounds:
  "0 < k \<Longrightarrow> y \<in> set (range_up i stop k) \<Longrightarrow> i \<le> y \<and> y < stop"
proof (induction i stop k rule: range_up.induct)
  case (1 i stop k)
  show ?case
  proof (cases "i < stop")
    case False
    then show ?thesis using 1 by (simp add: range_up_nil)
  next
    case True
    then show ?thesis using 1 by (auto simp: range_up_cons)
  qed
qed

lemma range_up_adjacent:
  "0 < k \<Longrightarrow> Suc j < length (range_up i stop k) \<Longrightarrow>
     range_up i stop k ! Suc j = range_up i stop k ! j + k \<and> range_up i stop k ! Suc j < stop"
proof (induction i stop k arbitrary: j rule: range_up.induct)
  case (1 i stop k)
  show ?case
  proof (cases "i < stop")
    case False
    then show ?thesis using 1 by (simp add: range_up_nil)
  next
    case True
    note c = range_up_cons[OF \<open>0 < k\<close> True]
    show ?thesis
    proof (cases j)
      case 0
      have "range_up (i + k) stop k \<noteq> []" using "1.prems" c 0 by auto
      then have lt: "i + k < stop" by (metis range_up_nil)
      have "range_up (i + k) stop k ! 0 = i + k" using lt \<open>0 < k\<close> by (simp add: range_up_cons)
      then show ?thesis using c 0 lt by simp
    next
      case (Suc j')
      have "Suc j' < length (range_up (i + k) stop k)" using "1.prems" c Suc by simp
      then show ?thesis using "1.IH"[of j'] True \<open>0 < k\<close> c Suc by simp
    qed
  qed
qed


lemma range_up_last:
  "0 < k \<Longrightarrow> i < stop \<Longrightarrow> stop \<le> last (range_up i stop k) + k"
proof (induction i stop k rule: range_up.induct)
  case (1 i stop k)
  note c = range_up_cons[OF \<open>0 < k\<close> \<open>i < stop\<close>]
  show ?case
  proof (cases "i + k < stop")
    case True
    then have "range_up (i + k) stop k \<noteq> []" using \<open>0 < k\<close> by (simp add: range_up_cons)
    then show ?thesis using 1 True c by simp
  next
    case False
    then show ?thesis using c by (simp add: range_up_nil)
  qed
qed

lemma windows_up:
  "0 < batch_size a \<Longrightarrow>
     windows a = map (\<lambda>y. (y, window_end a y)) (range_up (start_year a) (start_year a + years a) (batch_size a))"
  by (simp add: windows_def py_range3_def)

section \<open>What the loops of the generator compute\<close>

text \<open>
  The loops of \<^verbatim>\<open>generate_ics\<close> never write a file. When no projection raises anything but
  \<^verbatim>\<open>DateNotExist\<close> they run to the end, and in closed form: the pairs that project give one
  event each, in order, stamped with consecutive clock readings; the others give one warning
  each. When some projection raises another exception, the loops end with an exception.
\<close>

lemma year_loop_written: "written (snd (snd (year_loop E b ys cw))) = written (snd cw)"
proof (induction ys arbitrary: cw)
  case Nil
  show ?case by simp
next
  case (Cons y ys)
  obtain cal w where cw: "cw = (cal, w)" by (cases cw)
  show ?case unfolding cw
    by (cases "project E b y") (simp_all add: create_birthday_event_def Cons.IH)
qed

lemma year_loop_ok:
  "\<forall>y \<in> set ys. \<forall>x. project E b y = Inl x \<longrightarrow> x = DateNotExist \<Longrightarrow>
   year_loop E b ys (cal, w) =
     (None,
      cal\<lparr>components := components cal @
          map (\<lambda>(k, y). birthday_event b (projr (project E b y)) (now E k))
              (enumerate (ticks w) (filter (\<lambda>y. \<not> isl (project E b y)) ys))\<rparr>,
      w\<lparr>stdout := stdout w @ map (\<lambda>y. warning_line b) (filter (\<lambda>y. isl (project E b y)) ys),
         ticks := ticks w + length (filter (\<lambda>y. \<not> isl (project E b y)) ys)\<rparr>)"
proof (induction ys arbitrary: cal w)
  case Nil
  show ?case by simp
next
  case (Cons y ys)
  then have ih: "\<And>cal w. year_loop E b ys (cal, w) =
     (None,
      cal\<lparr>components := components cal @
          map (\<lambda>(k, y). birthday_event b (projr (project E b y)) (now E k))
              (enumerate (ticks w) (filter (\<lambda>y. \<not> isl (project E b y)) ys))\<rparr>,
      w\<lparr>stdout := stdout w @ map (\<lambda>y. warning_line b) (filter (\<lambda>y. isl (project E b y)) ys),
         ticks := ticks w + length (filter (\<lambda>y. \<not> isl (project E b y)) ys)\<rparr>)"
    by simp
  show ?case
  proof (cases "project E b y")
    case (Inl x)
    then have "x = DateNotExist" using Cons.prems by simp
    then show ?thesis using Inl by (simp add: create_birthday_event_def ih)
  next
    case (Inr d)
    then show ?thesis by (simp add: create_birthday_event_def ih)
  qed
qed

lemma year_loop_raises:
  "\<exists>y \<in> set ys. \<exists>x. project E b y = Inl x \<and> x \<noteq> DateNotExist \<Longrightarrow>
   fst (year_loop E b ys cw) \<noteq> None"
proof (induction ys arbitrary: cw)
  case Nil
  then show ?case by simp
next
  case (Cons y ys)
  obtain cal w where cw: "cw = (cal, w)" by (cases cw)
  show ?case
  proof (cases "project E b y")
    case (Inr d)
    then have "\<exists>y \<in> set ys. \<exists>x. project E b y = Inl x \<and> x \<noteq> DateNotExist" using Cons.prems by auto
    then show ?thesis unfolding cw using Inr by (simp add: create_birthday_event_def Cons.IH)
  next
    case (Inl x)
    show ?thesis
    proof (cases "x = DateNotExist")
      case True
      then have "\<exists>y \<in> set ys. \<exists>x. project E b y = Inl x \<and> x \<noteq> DateNotExist"
        using Cons.prems Inl by auto
      then show ?thesis unfolding cw using Inl True by (simp add: create_birthday_event_def Cons.IH)
    next
      case False
      then show ?thesis unfolding cw using Inl by (simp add: create_birthday_event_def)
    qed
  qed
qed

lemma filter_product_Cons:
  "filter P (List.product (b # bs) ys) =
     map (Pair b) (filter (\<lambda>y. P (b, y)) ys) @ filter P (List.product bs ys)"
  by (simp add: filter_map comp_def)

lemma map_enumerate_Pair:
  "map f (enumerate n (map (Pair b) xs)) = map (\<lambda>(k, y). f (k, b, y)) (enumerate n xs)"
  by (induction xs arbitrary: n) simp_all

lemma birthday_loop_written: "written (snd (snd (birthday_loop E bs s e cw))) = written (snd cw)"
proof (induction bs arbitrary: cw)
  case Nil
  show ?case by simp
next
  case (Cons b bs)
  obtain r cw' where y: "year_loop E b (py_range2 s (e + 1)) cw = (r, cw')"
    by (cases "year_loop E b (py_range2 s (e + 1)) cw")
  have "written (snd cw') = written (snd cw)"
    using year_loop_written[of E b "py_range2 s (e + 1)" cw] y by simp
  then show ?case using y by (cases r) (simp_all add: Cons.IH)
qed

lemma birthday_loop_ok:
  "\<forall>b \<in> set bs. \<forall>y \<in> {s..e}. \<forall>x. project E b y = Inl x \<longrightarrow> x = DateNotExist \<Longrightarrow>
   birthday_loop E bs s e (cal, w) =
     (None,
      cal\<lparr>components := components cal @
          map (\<lambda>(k, b, y). birthday_event b (projr (project E b y)) (now E k))
              (enumerate (ticks w) (filter (\<lambda>(b, y). \<not> isl (project E b y)) (List.product bs [s..e])))\<rparr>,
      w\<lparr>stdout := stdout w @
           map (\<lambda>(b, y). warning_line b) (filter (\<lambda>(b, y). isl (project E b y)) (List.product bs [s..e])),
         ticks := ticks w + length (filter (\<lambda>(b, y). \<not> isl (project E b y)) (List.product bs [s..e]))\<rparr>)"
proof (induction bs arbitrary: cal w)
  case Nil
  show ?case by simp
next
  case (Cons b bs)
  have h: "\<forall>y \<in> set [s..e]. \<forall>x. project E b y = Inl x \<longrightarrow> x = DateNotExist"
    using Cons.prems by simp
  have t: "\<forall>b \<in> set bs. \<forall>y \<in> {s..e}. \<forall>x. project E b y = Inl x \<longrightarrow> x = DateNotExist"
    using Cons.prems by simp
  show ?case
    by (simp add: py_range2_def range_up_one year_loop_ok[OF h] Cons.IH[OF t] filter_product_Cons
        enumerate_append_eq map_enumerate_Pair del: List.product.simps)
qed

lemma birthday_loop_raises:
  "\<exists>b \<in> set bs. \<exists>y \<in> {s..e}. \<exists>x. project E b y = Inl x \<and> x \<noteq> DateNotExist \<Longrightarrow>
   fst (birthday_loop E bs s e cw) \<noteq> None"
proof (induction bs arbitrary: cw)
  case Nil
  then show ?case by simp
next
  case (Cons b bs)
  obtain r cw' where y: "year_loop E b (py_range2 s (e + 1)) cw = (r, cw')"
    by (cases "year_loop E b (py_range2 s (e + 1)) cw")
  show ?case
  proof (cases r)
    case (Some x)
    then show ?thesis using y by simp
  next
    case None
    have "\<not> (\<exists>y \<in> set [s..e]. \<exists>x. project E b y = Inl x \<and> x \<noteq> DateNotExist)"
      using year_loop_raises[of "[s..e]" E b cw] y None by (auto simp: py_range2_def range_up_one)
    then have "\<exists>b \<in> set bs. \<exists>y \<in> {s..e}. \<exists>x. project E b y = Inl x \<and> x \<noteq> DateNotExist"
      using Cons.prems by auto
    then show ?thesis using y None by (simp add: Cons.IH)
  qed
qed

lemma generate_ics_ok:
  "\<forall>b \<in> set bs. \<forall>y \<in> {s..e}. \<forall>x. project E b y = Inl x \<longrightarrow> x = DateNotExist \<Longrightarrow>
   generate_ics E bs path s e w =
     (None,
      w\<lparr>stdout := stdout w @
           map (\<lambda>(b, y). warning_line b) (filter (\<lambda>(b, y). isl (project E b y)) (List.product bs [s..e])),
        ticks := ticks w + length (filter (\<lambda>(b, y). \<not> isl (project E b y)) (List.product bs [s..e])),
        written := written w @
         [(path, new_calendar\<lparr>components :=
             map (\<lambda>(k, b, y). birthday_event b (projr (project E b y)) (now E k))
                 (enumerate (ticks w) (filter (\<lambda>(b, y). \<not> isl (project E b y)) (List.product bs [s..e])))\<rparr>)]\<rparr>)"
  by (simp add: generate_ics_def birthday_loop_ok new_calendar_def)

lemma generate_ics_raises:
  assumes "\<exists>b \<in> set bs. \<exists>y \<in> {s..e}. \<exists>x. project E b y = Inl x \<and> x \<noteq> DateNotExist"
  shows "fst (generate_ics E bs path s e w) \<noteq> None \<and> written (snd (generate_ics E bs path s e w)) = written w"
proof -
  obtain r cal w' where l: "birthday_loop E bs s e (new_calendar, w) = (r, cal, w')"
    by (cases "birthday_loop E bs s e (new_calendar, w)") auto
  have "r \<noteq> None" using birthday_loop_raises[OF assms, of "(new_calendar, w)"] l by simp
  then obtain x where r: "r = Some x" by auto
  have "written w' = written w"
    using birthday_loop_written[of E bs s e "(new_calendar, w)"] l by simp
  then show ?thesis using l r by (simp add: generate_ics_def)
qed

lemma generate_ics_returns:
  "fst (generate_ics E bs path s e w) = None \<Longrightarrow>
   \<forall>b \<in> set bs. \<forall>y \<in> {s..e}. \<forall>x. project E b y = Inl x \<longrightarrow> x = DateNotExist"
  using generate_ics_raises[of bs s e E path w] by blast

lemma map_enumerate_indep:
  "(\<And>k p. f (g k p) = h p) \<Longrightarrow> map f (map (\<lambda>(k, p). g k p) (enumerate n ps)) = map h ps"
  by (induction ps arbitrary: n) simp_all

lemma events_projection:
  assumes "\<And>b d t. f (birthday_event b d t) = g b d"
  shows "map f (map (\<lambda>(k, b, y). birthday_event b (projr (project E b y)) (now E k)) (enumerate n ps)) =
         map (\<lambda>(b, y). g b (projr (project E b y))) ps"
proof -
  have "map f (map (\<lambda>(k, p). (case p of (b, y) \<Rightarrow> birthday_event b (projr (project E b y)) (now E k)))
                   (enumerate n ps)) =
        map (\<lambda>p. case p of (b, y) \<Rightarrow> g b (projr (project E b y))) ps"
    by (rule map_enumerate_indep) (simp add: assms split: prod.split)
  then show ?thesis by (simp add: case_prod_unfold)
qed

lemma generate_ics_ok_fst:
  "\<forall>b \<in> set bs. \<forall>y \<in> {s..e}. \<forall>x. project E b y = Inl x \<longrightarrow> x = DateNotExist \<Longrightarrow>
   fst (generate_ics E bs path s e w) = None"
  by (simp add: generate_ics_ok)

lemma generate_ics_ok_written:
  "\<forall>b \<in> set bs. \<forall>y \<in> {s..e}. \<forall>x. project E b y = Inl x \<longrightarrow> x = DateNotExist \<Longrightarrow>
   written (snd (generate_ics E bs path s e w)) =
     written w @
       [(path, new_calendar\<lparr>components :=
           map (\<lambda>(k, b, y). birthday_event b (projr (project E b y)) (now E k))
               (enumerate (ticks w) (filter (\<lambda>(b, y). \<not> isl (project E b y)) (List.product bs [s..e])))\<rparr>)]"
  by (simp add: generate_ics_ok)

lemma generate_ics_ok_stdout:
  "\<forall>b \<in> set bs. \<forall>y \<in> {s..e}. \<forall>x. project E b y = Inl x \<longrightarrow> x = DateNotExist \<Longrightarrow>
   stdout (snd (generate_ics E bs path s e w)) =
     stdout w @ map (\<lambda>(b, y). warning_line b)
                    (filter (\<lambda>(b, y). isl (project E b y)) (List.product bs [s..e]))"
  by (simp add: generate_ics_ok)

lemma generate_ics_warning_count:
  "\<forall>b \<in> set bs. \<forall>y \<in> {s..e}. \<forall>x. project E b y = Inl x \<longrightarrow> x = DateNotExist \<Longrightarrow>
   length (stdout (snd (generate_ics E bs path s e w))) =
     length (stdout w) + length (filter (\<lambda>(b, y). project E b y = Inl DateNotExist) (List.product bs [s..e]))"
proof -
  assume h: "\<forall>b \<in> set bs. \<forall>y \<in> {s..e}. \<forall>x. project E b y = Inl x \<longrightarrow> x = DateNotExist"
  have "filter (\<lambda>(b, y). isl (project E b y)) (List.product bs [s..e]) =
        filter (\<lambda>(b, y). project E b y = Inl DateNotExist) (List.product bs [s..e])"
    using h by (intro filter_cong refl) (auto simp: isl_def)
  then show ?thesis using h by (simp add: generate_ics_ok_stdout)
qed

lemma generate_ics_written_cases:
  "(fst (generate_ics E bs path s e w) = None \<and>
      (\<exists>cal. written (snd (generate_ics E bs path s e w)) = written w @ [(path, cal)])) \<or>
   (fst (generate_ics E bs path s e w) \<noteq> None \<and>
      written (snd (generate_ics E bs path s e w)) = written w)"
proof -
  obtain r cal w' where l: "birthday_loop E bs s e (new_calendar, w) = (r, cal, w')"
    by (cases "birthday_loop E bs s e (new_calendar, w)") auto
  have "written w' = written w"
    using birthday_loop_written[of E bs s e "(new_calendar, w)"] l by simp
  then show ?thesis using l by (cases r) (simp_all add: generate_ics_def)
qed

lemma generate_ics_dates:
  assumes "\<forall>b \<in> set bs. \<forall>y \<in> {s..e}. \<forall>x. project E b y = Inl x \<longrightarrow> x = DateNotExist"
  shows "map (\<lambda>(p, cal). (p, map dtstart (components cal))) (written (snd (generate_ics E bs path s e w))) =
     map (\<lambda>(p, cal). (p, map dtstart (components cal))) (written w) @
       [(path, map (\<lambda>(b, y). projr (project E b y))
                   (filter (\<lambda>(b, y). \<not> isl (project E b y)) (List.product bs [s..e])))]"
  using events_projection[of dtstart "\<lambda>b d. d" E "ticks w"
      "filter (\<lambda>(b, y). \<not> isl (project E b y)) (List.product bs [s..e])"]
  by (simp add: generate_ics_ok_written[OF assms] birthday_event_def)

text \<open>The stand-in converter raises nothing but \<^verbatim>\<open>DateNotExist\<close> up to the lunar year 2111.\<close>

lemma demo_quiet:
  "y \<le> 2111 \<Longrightarrow> project demo_env b y = Inl x \<Longrightarrow> x = DateNotExist"
  by (auto simp: project_def demo_env_def demo_convert_def split: if_splits)

lemma demo_quiet_range:
  "e \<le> 2111 \<Longrightarrow> \<forall>b \<in> set bs. \<forall>y \<in> {s..e}. \<forall>x. project demo_env b y = Inl x \<longrightarrow> x = DateNotExist"
proof (intro ballI allI impI)
  fix b y x
  assume "e \<le> 2111" and "y \<in> {s..e}" and p: "project demo_env b y = Inl x"
  then have "y \<le> 2111" by simp
  then show "x = DateNotExist" using p by (rule demo_quiet)
qed

lemma upto_2025_2027: "[2025..2027] = [2025, 2026, 2027::int]"
  by (simp add: upto_rec1)

lemma upto_2025_2026: "[2025..2026] = [2025, 2026::int]"
  by (simp add: upto_rec1)

lemma upto_2110_2112: "[2110..2112] = [2110, 2111, 2112::int]"
  by (simp add: upto_rec1)

lemma upto_2111_2112: "[2111..2112] = [2111, 2112::int]"
  by (simp add: upto_rec1)

section \<open>The Batch Year-Range Generator\<close>

text \<open>
  Claim C2 as it is written does not hold: \<^verbatim>\<open>generate_ics\<close> catches \<^verbatim>\<open>DateNotExist\<close> only. For
  a birthday of lunar 12-30 and the years 2110 to 2112, with a converter whose table ends at
  2111, the projection into 2110 succeeds, the projection into 2111 reports that the date
  does not exist, and the projection into 2112 raises \<^verbatim>\<open>IndexError\<close>: the batch is aborted
  and no file is written.
\<close>

theorem generate_ics_aborts_on_uncaught_exception:
  "project demo_env birthday_C 2110 = Inr 747300 \<and>
   project demo_env birthday_C 2111 = Inl DateNotExist \<and>
   project demo_env birthday_C 2112 = Inl IndexError \<and>
   fst (generate_ics demo_env [birthday_C] ''out.ics'' 2110 2112 demo_world) = Some IndexError \<and>
   written (snd (generate_ics demo_env [birthday_C] ''out.ics'' 2110 2112 demo_world)) = []"
  by (simp add: generate_ics_def py_range2_def range_up_one upto_2110_2112 create_birthday_event_def
      project_def demo_env_def demo_convert_def birthday_C_def demo_world_def)

text \<open>
  Claim C2, amended. In a window in which no projection raises an exception other than
  \<^verbatim>\<open>DateNotExist\<close>, a projection that reports that the lunar date does not exist makes
  \<^verbatim>\<open>generate_ics\<close> skip that (record, year) pair only: the run ends without an exception and
  writes exactly one file, at the given path; the start dates of its events are the
  projected dates of all pairs that project, in the order of the loops, whatever failed
  before or after them; and when every projection of the window reports that the date does
  not exist, the file is still written, with no events.
\<close>

theorem generate_ics_skips_missing_dates:
  assumes "\<forall>b \<in> set bs. \<forall>y \<in> {s..e}. \<forall>x. project E b y = Inl x \<longrightarrow> x = DateNotExist"
  shows "\<exists>cal. fst (generate_ics E bs path s e w) = None \<and>
     written (snd (generate_ics E bs path s e w)) = written w @ [(path, cal)] \<and>
     map dtstart (components cal) =
       map (\<lambda>(b, y). projr (project E b y))
           (filter (\<lambda>(b, y). \<not> isl (project E b y)) (List.product bs [s..e])) \<and>
     ((\<forall>b \<in> set bs. \<forall>y \<in> {s..e}. project E b y = Inl DateNotExist) \<longrightarrow> components cal = [])"
proof -
  let ?ps = "filter (\<lambda>(b, y). \<not> isl (project E b y)) (List.product bs [s..e])"
  let ?cal = "new_calendar\<lparr>components :=
           map (\<lambda>(k, b, y). birthday_event b (projr (project E b y)) (now E k)) (enumerate (ticks w) ?ps)\<rparr>"
  have 0: "fst (generate_ics E bs path s e w) = None" using assms by (rule generate_ics_ok_fst)
  have 1: "written (snd (generate_ics E bs path s e w)) = written w @ [(path, ?cal)]"
    using assms by (rule generate_ics_ok_written)
  have 2: "map dtstart (components ?cal) = map (\<lambda>(b, y). projr (project E b y)) ?ps"
    using events_projection[of dtstart "\<lambda>b d. d" E "ticks w" ?ps]
    by (simp add: birthday_event_def)
  have 3: "components ?cal = []" if "\<forall>b \<in> set bs. \<forall>y \<in> {s..e}. project E b y = Inl DateNotExist"
  proof -
    have "?ps = []" using that by (auto simp: filter_empty_conv)
    then show ?thesis by simp
  qed
  show ?thesis using 0 1 2 3 by blast
qed

theorem generate_ics_skips_missing_dates_witness:
  "project demo_env birthday_C 2025 = Inl DateNotExist \<and>
   project demo_env birthday_C 2027 = Inl DateNotExist \<and>
   (\<exists>cal. fst (generate_ics demo_env [birthday_A, birthday_C] ''out.ics'' 2025 2027 demo_world) = None \<and>
          written (snd (generate_ics demo_env [birthday_A, birthday_C] ''out.ics'' 2025 2027 demo_world)) =
            [(''out.ics'', cal)] \<and>
          map dtstart (components cal) = [716865, 717219, 717573, 717564]) \<and>
   (\<exists>cal. fst (generate_ics demo_env [birthday_D] ''out.ics'' 2025 2026 demo_world) = None \<and>
          written (snd (generate_ics demo_env [birthday_D] ''out.ics'' 2025 2026 demo_world)) =
            [(''out.ics'', cal)] \<and>
          components cal = [])"
proof -
  have f: "project demo_env birthday_C 2025 = Inl DateNotExist"
    "project demo_env birthday_C 2027 = Inl DateNotExist"
    by (simp_all add: project_def demo_env_def demo_convert_def birthday_C_def)
  have q1: "\<forall>b \<in> set [birthday_A, birthday_C]. \<forall>y \<in> {2025..2027}. \<forall>x.
              project demo_env b y = Inl x \<longrightarrow> x = DateNotExist"
    by (rule demo_quiet_range) simp
  have q2: "\<forall>b \<in> set [birthday_D]. \<forall>y \<in> {2025..2026}. \<forall>x.
              project demo_env b y = Inl x \<longrightarrow> x = DateNotExist"
    by (rule demo_quiet_range) simp
  have a: "\<forall>b \<in> set [birthday_D]. \<forall>y \<in> {2025..2026}. project demo_env b y = Inl DateNotExist"
    by (simp add: project_def demo_env_def demo_convert_def birthday_D_def)
  from generate_ics_skips_missing_dates[OF q1, of "''out.ics''" demo_world]
  obtain cal where
    c0: "fst (generate_ics demo_env [birthday_A, birthday_C] ''out.ics'' 2025 2027 demo_world) = None"
    and c1: "written (snd (generate_ics demo_env [birthday_A, birthday_C] ''out.ics'' 2025 2027 demo_world)) =
          written demo_world @ [(''out.ics'', cal)]"
    and c2: "map dtstart (components cal) =
       map (\<lambda>(b, y). projr (project demo_env b y))
           (filter (\<lambda>(b, y). \<not> isl (project demo_env b y)) (List.product [birthday_A, birthday_C] [2025..2027]))"
    by blast
  from c1 have c1': "written (snd (generate_ics demo_env [birthday_A, birthday_C] ''out.ics'' 2025 2027 demo_world)) =
            [(''out.ics'', cal)]"
    by (simp add: demo_world_def)
  from c2 have c2': "map dtstart (components cal) = [716865, 717219, 717573, 717564]"
    by (simp add: upto_2025_2027 project_def demo_env_def demo_convert_def birthday_A_def birthday_C_def)
  from c0 c1' c2' have mixed:
    "\<exists>cal. fst (generate_ics demo_env [birthday_A, birthday_C] ''out.ics'' 2025 2027 demo_world) = None \<and>
          written (snd (generate_ics demo_env [birthday_A, birthday_C] ''out.ics'' 2025 2027 demo_world)) =
            [(''out.ics'', cal)] \<and>
          map dtstart (components cal) = [716865, 717219, 717573, 717564]"
    by (intro exI[of _ cal] conjI)
  from generate_ics_skips_missing_dates[OF q2, of "''out.ics''" demo_world]
  obtain cal' where
    d0: "fst (generate_ics demo_env [birthday_D] ''out.ics'' 2025 2026 demo_world) = None"
    and d1: "written (snd (generate_ics demo_env [birthday_D] ''out.ics'' 2025 2026 demo_world)) =
          written demo_world @ [(''out.ics'', cal')]"
    and d3: "(\<forall>b \<in> set [birthday_D]. \<forall>y \<in> {2025..2026}. project demo_env b y = Inl DateNotExist) \<longrightarrow>
             components cal' = []"
    by blast
  from d3 a have d3': "components cal' = []" by (rule mp)
  from d1 have d1': "written (snd (generate_ics demo_env [birthday_D] ''out.ics'' 2025 2026 demo_world)) =
            [(''out.ics'', cal')]"
    by (simp add: demo_world_def)
  from d0 d1' d3' have allfail:
    "\<exists>cal. fst (generate_ics demo_env [birthday_D] ''out.ics'' 2025 2026 demo_world) = None \<and>
          written (snd (generate_ics demo_env [birthday_D] ''out.ics'' 2025 2026 demo_world)) =
            [(''out.ics'', cal)] \<and>
          components cal = []"
    by (intro exI[of _ cal'] conjI)
  from f mixed allfail show ?thesis by (intro conjI)
qed

text \<open>
  Claim C3 as it is written does not hold either: for a birthday of lunar 1-15 and the years
  2111 to 2112 the projection into 2111 succeeds, but the projection into 2112 raises
  \<^verbatim>\<open>IndexError\<close>, so no file is written and the projected date has no event.
\<close>

theorem projected_date_lost_on_uncaught_exception:
  "project demo_env birthday_A 2111 = Inr 747309 \<and>
   project demo_env birthday_A 2112 = Inl IndexError \<and>
   fst (generate_ics demo_env [birthday_A] ''out.ics'' 2111 2112 demo_world) = Some IndexError \<and>
   written (snd (generate_ics demo_env [birthday_A] ''out.ics'' 2111 2112 demo_world)) = []"
  by (simp add: generate_ics_def py_range2_def range_up_one upto_2111_2112 create_birthday_event_def
      project_def demo_env_def demo_convert_def birthday_A_def demo_world_def)

text \<open>
  Claim C3, amended. In a range in which no projection raises an exception other than
  \<^verbatim>\<open>DateNotExist\<close>, the events of the file written by \<^verbatim>\<open>generate_ics\<close> correspond one to one,
  in order, to the (record, year) pairs of the range whose projection succeeds; the event of
  a pair has the summary \<^verbatim>\<open>{name}'s birthday\<close>, starts at the projected solar date and ends
  one day later. In particular every record of the list and every year of the range that
  projects has such an event in the file.
\<close>

theorem one_event_per_projected_date:
  assumes "\<forall>b \<in> set bs. \<forall>y \<in> {s..e}. \<forall>x. project E b y = Inl x \<longrightarrow> x = DateNotExist"
  shows "\<exists>cal. fst (generate_ics E bs path s e w) = None \<and>
     written (snd (generate_ics E bs path s e w)) = written w @ [(path, cal)] \<and>
     map (\<lambda>ev. (summary ev, dtstart ev, dtend ev)) (components cal) =
       map (\<lambda>(b, y). (name b @ [CHR 0x27] @ ''s birthday'', projr (project E b y), projr (project E b y) + 1))
           (filter (\<lambda>(b, y). \<not> isl (project E b y)) (List.product bs [s..e])) \<and>
     (\<forall>b \<in> set bs. \<forall>y \<in> {s..e}. \<forall>d. project E b y = Inr d \<longrightarrow>
        (\<exists>ev \<in> set (components cal).
           summary ev = name b @ [CHR 0x27] @ ''s birthday'' \<and> dtstart ev = d \<and> dtend ev = d + 1))"
proof -
  let ?ps = "filter (\<lambda>(b, y). \<not> isl (project E b y)) (List.product bs [s..e])"
  let ?cal = "new_calendar\<lparr>components :=
           map (\<lambda>(k, b, y). birthday_event b (projr (project E b y)) (now E k)) (enumerate (ticks w) ?ps)\<rparr>"
  let ?f = "\<lambda>ev. (summary ev, dtstart ev, dtend ev)"
  let ?g = "\<lambda>(b, y). (name b @ [CHR 0x27] @ ''s birthday'', projr (project E b y), projr (project E b y) + 1)"
  have 0: "fst (generate_ics E bs path s e w) = None" using assms by (rule generate_ics_ok_fst)
  have 1: "written (snd (generate_ics E bs path s e w)) = written w @ [(path, ?cal)]"
    using assms by (rule generate_ics_ok_written)
  have 2: "map ?f (components ?cal) = map ?g ?ps"
    using events_projection[of ?f "\<lambda>b d. (name b @ [CHR 0x27] @ ''s birthday'', d, d + 1)" E "ticks w" ?ps]
    by (simp add: birthday_event_def)
  have 3: "\<exists>ev \<in> set (components ?cal).
             summary ev = name b @ [CHR 0x27] @ ''s birthday'' \<and> dtstart ev = d \<and> dtend ev = d + 1"
    if "b \<in> set bs" and "y \<in> {s..e}" and "project E b y = Inr d" for b y d
  proof -
    have "(b, y) \<in> set ?ps" using that by simp
    then have "?g (b, y) \<in> ?g ` set ?ps" by (rule imageI)
    then have "?g (b, y) \<in> set (map ?g ?ps)" by (simp only: set_map)
    then have "?g (b, y) \<in> set (map ?f (components ?cal))" by (simp only: 2)
    then have "?g (b, y) \<in> ?f ` set (components ?cal)" by (simp only: set_map)
    then obtain ev where e1: "?g (b, y) = ?f ev" and e2: "ev \<in> set (components ?cal)" by (rule imageE)
    from e1 that(3) have "summary ev = name b @ [CHR 0x27] @ ''s birthday'' \<and> dtstart ev = d \<and> dtend ev = d + 1"
      by simp
    with e2 show ?thesis by blast
  qed
  show ?thesis using 0 1 2 3 by blast
qed

theorem one_event_per_projected_date_witness:
  "birthday_C \<in> set [birthday_A, birthday_C] \<and> project demo_env birthday_C 2026 = Inr 717564 \<and>
   (\<exists>cal. fst (generate_ics demo_env [birthday_A, birthday_C] ''out.ics'' 2025 2027 demo_world) = None \<and>
          written (snd (generate_ics demo_env [birthday_A, birthday_C] ''out.ics'' 2025 2027 demo_world)) =
            [(''out.ics'', cal)] \<and>
          map (\<lambda>ev. (summary ev, dtstart ev, dtend ev)) (components cal) =
            [(''A'' @ [CHR 0x27] @ ''s birthday'', 716865, 716866),
             (''A'' @ [CHR 0x27] @ ''s birthday'', 717219, 717220),
             (''A'' @ [CHR 0x27] @ ''s birthday'', 717573, 717574),
             (''C'' @ [CHR 0x27] @ ''s birthday'', 717564, 717565)] \<and>
          (\<exists>ev \<in> set (components cal).
             summary ev = ''C'' @ [CHR 0x27] @ ''s birthday'' \<and> dtstart ev = 717564 \<and> dtend ev = 717565))"
proof -
  have h1: "birthday_C \<in> set [birthday_A, birthday_C]" by simp
  have h2: "(2026::int) \<in> {2025..2027}" by simp
  have h3: "project demo_env birthday_C 2026 = Inr 717564"
    by (simp add: project_def demo_env_def demo_convert_def birthday_C_def)
  have q: "\<forall>b \<in> set [birthday_A, birthday_C]. \<forall>y \<in> {2025..2027}. \<forall>x.
              project demo_env b y = Inl x \<longrightarrow> x = DateNotExist"
    by (rule demo_quiet_range) simp
  from one_event_per_projected_date[OF q, of "''out.ics''" demo_world]
  obtain cal where
    c0: "fst (generate_ics demo_env [birthday_A, birthday_C] ''out.ics'' 2025 2027 demo_world) = None"
    and c: "written (snd (generate_ics demo_env [birthday_A, birthday_C] ''out.ics'' 2025 2027 demo_world)) =
          written demo_world @ [(''out.ics'', cal)]"
    and m: "map (\<lambda>ev. (summary ev, dtstart ev, dtend ev)) (components cal) =
       map (\<lambda>(b, y). (name b @ [CHR 0x27] @ ''s birthday'', projr (project demo_env b y), projr (project demo_env b y) + 1))
           (filter (\<lambda>(b, y). \<not> isl (project demo_env b y)) (List.product [birthday_A, birthday_C] [2025..2027]))"
    and p: "\<forall>b \<in> set [birthday_A, birthday_C]. \<forall>y \<in> {2025..2027}. \<forall>d. project demo_env b y = Inr d \<longrightarrow>
        (\<exists>ev \<in> set (components cal).
           summary ev = name b @ [CHR 0x27] @ ''s birthday'' \<and> dtstart ev = d \<and> dtend ev = d + 1)"
    by blast
  from c have c': "written (snd (generate_ics demo_env [birthday_A, birthday_C] ''out.ics'' 2025 2027 demo_world)) =
            [(''out.ics'', cal)]"
    by (simp add: demo_world_def)
  from m have m': "map (\<lambda>ev. (summary ev, dtstart ev, dtend ev)) (components cal) =
            [(''A'' @ [CHR 0x27] @ ''s birthday'', 716865, 716866),
             (''A'' @ [CHR 0x27] @ ''s birthday'', 717219, 717220),
             (''A'' @ [CHR 0x27] @ ''s birthday'', 717573, 717574),
             (''C'' @ [CHR 0x27] @ ''s birthday'', 717564, 717565)]"
    by (simp add: upto_2025_2027 project_def demo_env_def demo_convert_def birthday_A_def birthday_C_def)
  from p h1 h2 h3 have "\<exists>ev \<in> set (components cal).
           summary ev = name birthday_C @ [CHR 0x27] @ ''s birthday'' \<and> dtstart ev = 717564 \<and> dtend ev = 717564 + 1"
    by blast
  then have p': "\<exists>ev \<in> set (components cal).
             summary ev = ''C'' @ [CHR 0x27] @ ''s birthday'' \<and> dtstart ev = 717564 \<and> dtend ev = 717565"
    by (simp add: birthday_C_def)
  from c0 c' m' p' have "\<exists>cal. fst (generate_ics demo_env [birthday_A, birthday_C] ''out.ics'' 2025 2027 demo_world) = None \<and>
          written (snd (generate_ics demo_env [birthday_A, birthday_C] ''out.ics'' 2025 2027 demo_world)) =
            [(''out.ics'', cal)] \<and>
          map (\<lambda>ev. (summary ev, dtstart ev, dtend ev)) (components cal) =
            [(''A'' @ [CHR 0x27] @ ''s birthday'', 716865, 716866),
             (''A'' @ [CHR 0x27] @ ''s birthday'', 717219, 717220),
             (''A'' @ [CHR 0x27] @ ''s birthday'', 717573, 717574),
             (''C'' @ [CHR 0x27] @ ''s birthday'', 717564, 717565)] \<and>
          (\<exists>ev \<in> set (components cal).
             summary ev = ''C'' @ [CHR 0x27] @ ''s birthday'' \<and> dtstart ev = 717564 \<and> dtend ev = 717565)"
    by (intro exI[of _ cal] conjI)
  with h1 h3 show ?thesis by (intro conjI)
qed

text \<open>
  Claim C5. When every projection succeeds, \<^verbatim>\<open>generate_ics\<close> writes its file and the events
  of the file are ordered by record first and by year second: all years of the first record
  in increasing order, then all years of the second record, and so on. For records A, B and
  the years 2025 to 2026 the order is A in 2025, A in 2026, B in 2025, B in 2026.
\<close>

theorem events_in_record_then_year_order:
  assumes "\<forall>b \<in> set bs. \<forall>y \<in> {s..e}. \<not> isl (project E b y)"
  shows "\<exists>cal. fst (generate_ics E bs path s e w) = None \<and>
     written (snd (generate_ics E bs path s e w)) = written w @ [(path, cal)] \<and>
     map (\<lambda>ev. (summary ev, dtstart ev)) (components cal) =
       concat (map (\<lambda>b. map (\<lambda>y. (name b @ [CHR 0x27] @ ''s birthday'', projr (project E b y))) [s..e]) bs)"
proof -
  let ?ps = "filter (\<lambda>(b, y). \<not> isl (project E b y)) (List.product bs [s..e])"
  let ?cal = "new_calendar\<lparr>components :=
           map (\<lambda>(k, b, y). birthday_event b (projr (project E b y)) (now E k)) (enumerate (ticks w) ?ps)\<rparr>"
  let ?f = "\<lambda>ev. (summary ev, dtstart ev)"
  let ?g = "\<lambda>(b, y). (name b @ [CHR 0x27] @ ''s birthday'', projr (project E b y))"
  have q: "\<forall>b \<in> set bs. \<forall>y \<in> {s..e}. \<forall>x. project E b y = Inl x \<longrightarrow> x = DateNotExist"
  proof (intro ballI allI impI)
    fix b y x
    assume b: "b \<in> set bs" and y: "y \<in> {s..e}" and p: "project E b y = Inl x"
    from assms b y have "\<not> isl (project E b y)" by blast
    with p show "x = DateNotExist" by simp
  qed
  have 0: "fst (generate_ics E bs path s e w) = None" using q by (rule generate_ics_ok_fst)
  have 1: "written (snd (generate_ics E bs path s e w)) = written w @ [(path, ?cal)]"
    using q by (rule generate_ics_ok_written)
  have all: "?ps = List.product bs [s..e]" using assms by (auto simp: filter_id_conv)
  have 2: "map ?f (components ?cal) = map ?g ?ps"
    using events_projection[of ?f "\<lambda>b d. (name b @ [CHR 0x27] @ ''s birthday'', d)" E "ticks w" ?ps]
    by (simp add: birthday_event_def)
  have "map ?g (List.product bs ys) = concat (map (\<lambda>b. map (\<lambda>y. ?g (b, y)) ys) bs)" for ys
    by (induction bs) simp_all
  then have 3: "map ?g ?ps =
      concat (map (\<lambda>b. map (\<lambda>y. (name b @ [CHR 0x27] @ ''s birthday'', projr (project E b y))) [s..e]) bs)"
    using all by simp
  show ?thesis using 0 1 2 3 by (intro exI[of _ ?cal]) simp
qed

theorem events_in_record_then_year_order_witness:
  "\<exists>cal. fst (generate_ics demo_env [birthday_A, birthday_B] ''out.ics'' 2025 2026 demo_world) = None \<and>
          written (snd (generate_ics demo_env [birthday_A, birthday_B] ''out.ics'' 2025 2026 demo_world)) =
            [(''out.ics'', cal)] \<and>
          map (\<lambda>ev. (summary ev, dtstart ev)) (components cal) =
            [(''A'' @ [CHR 0x27] @ ''s birthday'', projr (project demo_env birthday_A 2025)),
             (''A'' @ [CHR 0x27] @ ''s birthday'', projr (project demo_env birthday_A 2026)),
             (''B'' @ [CHR 0x27] @ ''s birthday'', projr (project demo_env birthday_B 2025)),
             (''B'' @ [CHR 0x27] @ ''s birthday'', projr (project demo_env birthday_B 2026))]"
proof -
  have h: "\<forall>b \<in> set [birthday_A, birthday_B]. \<forall>y \<in> {2025..2026}. \<not> isl (project demo_env b y)"
    by (simp add: project_def demo_env_def demo_convert_def birthday_A_def birthday_B_def)
  from events_in_record_then_year_order[OF h, of "''out.ics''" demo_world]
  obtain cal where
    c0: "fst (generate_ics demo_env [birthday_A, birthday_B] ''out.ics'' 2025 2026 demo_world) = None"
    and c: "written (snd (generate_ics demo_env [birthday_A, birthday_B] ''out.ics'' 2025 2026 demo_world)) =
          written demo_world @ [(''out.ics'', cal)]"
    and m: "map (\<lambda>ev. (summary ev, dtstart ev)) (components cal) =
       concat (map (\<lambda>b. map (\<lambda>y. (name b @ [CHR 0x27] @ ''s birthday'', projr (project demo_env b y))) [2025..2026])
                   [birthday_A, birthday_B])"
    by blast
  from c have c': "written (snd (generate_ics demo_env [birthday_A, birthday_B] ''out.ics'' 2025 2026 demo_world)) =
            [(''out.ics'', cal)]"
    by (simp add: demo_world_def)
  from m have m': "map (\<lambda>ev. (summary ev, dtstart ev)) (components cal) =
            [(''A'' @ [CHR 0x27] @ ''s birthday'', projr (project demo_env birthday_A 2025)),
             (''A'' @ [CHR 0x27] @ ''s birthday'', projr (project demo_env birthday_A 2026)),
             (''B'' @ [CHR 0x27] @ ''s birthday'', projr (project demo_env birthday_B 2025)),
             (''B'' @ [CHR 0x27] @ ''s birthday'', projr (project demo_env birthday_B 2026))]"
    by (simp add: upto_2025_2026 birthday_A_def birthday_B_def)
  from c0 c' m' show ?thesis by (intro exI[of _ cal] conjI)
qed

text \<open>
  Claim C6. For a start year not after the end year, whenever \<^verbatim>\<open>generate_ics\<close> returns (so
  that a calendar is produced and written), the calendar holds at most (number of records)
  times (end year - start year + 1) events, and strictly fewer when the projection of at
  least one record in at least one year of the range fails.
\<close>

theorem event_count_bound:
  assumes "s \<le> e" and "generate_ics E bs path s e w = (None, w')"
  shows "\<exists>cal. written w' = written w @ [(path, cal)] \<and>
     int (length (components cal)) \<le> int (length bs) * (e - s + 1) \<and>
     ((\<exists>b \<in> set bs. \<exists>y \<in> {s..e}. isl (project E b y)) \<longrightarrow>
        int (length (components cal)) < int (length bs) * (e - s + 1))"
proof -
  let ?P = "\<lambda>(b, y). \<not> isl (project E b y)"
  let ?all = "List.product bs [s..e]"
  let ?cal = "new_calendar\<lparr>components :=
           map (\<lambda>(k, b, y). birthday_event b (projr (project E b y)) (now E k))
               (enumerate (ticks w) (filter ?P ?all))\<rparr>"
  have "fst (generate_ics E bs path s e w) = None" using assms(2) by simp
  then have q: "\<forall>b \<in> set bs. \<forall>y \<in> {s..e}. \<forall>x. project E b y = Inl x \<longrightarrow> x = DateNotExist"
    by (rule generate_ics_returns)
  have "written (snd (generate_ics E bs path s e w)) = written w @ [(path, ?cal)]"
    using q by (rule generate_ics_ok_written)
  then have 1: "written w' = written w @ [(path, ?cal)]" using assms(2) by simp
  have len: "length (components ?cal) = length (filter ?P ?all)" by simp
  have tot: "int (length ?all) = int (length bs) * (e - s + 1)" using assms(1) by simp
  have 2: "int (length (components ?cal)) \<le> int (length bs) * (e - s + 1)"
    using length_filter_le[of ?P ?all] len tot by linarith
  have 3: "int (length (components ?cal)) < int (length bs) * (e - s + 1)"
    if "\<exists>b \<in> set bs. \<exists>y \<in> {s..e}. isl (project E b y)"
  proof -
    from that obtain b y where "b \<in> set bs" "y \<in> {s..e}" "isl (project E b y)" by blast
    then have "(b, y) \<in> set ?all" and "\<not> ?P (b, y)" by simp_all
    then have "length (filter ?P ?all) < length ?all" by (rule length_filter_less)
    then show ?thesis using len tot by linarith
  qed
  show ?thesis using 1 2 3 by (intro exI[of _ ?cal] conjI impI)
qed

theorem event_count_bound_witness:
  "fst (generate_ics demo_env [birthday_A, birthday_C] ''out.ics'' 2025 2027 demo_world) = None \<and>
   isl (project demo_env birthday_C 2025) \<and>
   (\<exists>cal. written (snd (generate_ics demo_env [birthday_A, birthday_C] ''out.ics'' 2025 2027 demo_world)) =
            [(''out.ics'', cal)] \<and>
         length (components cal) < 6)"
proof -
  have h: "(2025::int) \<le> 2027" by simp
  have q: "\<forall>b \<in> set [birthday_A, birthday_C]. \<forall>y \<in> {2025..2027}. \<forall>x.
              project demo_env b y = Inl x \<longrightarrow> x = DateNotExist"
    by (rule demo_quiet_range) simp
  have r0: "fst (generate_ics demo_env [birthday_A, birthday_C] ''out.ics'' 2025 2027 demo_world) = None"
    using q by (rule generate_ics_ok_fst)
  then have r: "generate_ics demo_env [birthday_A, birthday_C] ''out.ics'' 2025 2027 demo_world =
      (None, snd (generate_ics demo_env [birthday_A, birthday_C] ''out.ics'' 2025 2027 demo_world))"
    by (simp add: prod_eq_iff)
  have i: "isl (project demo_env birthday_C 2025)"
    by (simp add: project_def demo_env_def demo_convert_def birthday_C_def)
  have f: "\<exists>b \<in> set [birthday_A, birthday_C]. \<exists>y \<in> {2025..2027}. isl (project demo_env b y)"
  proof -
    have "birthday_C \<in> set [birthday_A, birthday_C]" and "(2025::int) \<in> {2025..2027}" by simp_all
    with i show ?thesis by blast
  qed
  from event_count_bound[OF h r]
  obtain cal where
    c: "written (snd (generate_ics demo_env [birthday_A, birthday_C] ''out.ics'' 2025 2027 demo_world)) =
          written demo_world @ [(''out.ics'', cal)]"
    and lt: "(\<exists>b \<in> set [birthday_A, birthday_C]. \<exists>y \<in> {2025..2027}. isl (project demo_env b y)) \<longrightarrow>
        int (length (components cal)) < int (length [birthday_A, birthday_C]) * (2027 - 2025 + 1)"
    by blast
  from lt f have "int (length (components cal)) < int (length [birthday_A, birthday_C]) * (2027 - 2025 + 1)"
    by (rule mp)
  then have l: "length (components cal) < 6" by simp
  from c have c': "written (snd (generate_ics demo_env [birthday_A, birthday_C] ''out.ics'' 2025 2027 demo_world)) =
            [(''out.ics'', cal)]"
    by (simp add: demo_world_def)
  from c' l have "\<exists>cal. written (snd (generate_ics demo_env [birthday_A, birthday_C] ''out.ics'' 2025 2027 demo_world)) =
            [(''out.ics'', cal)] \<and> length (components cal) < 6"
    by (intro exI[of _ cal] conjI)
  with r0 i show ?thesis by (intro conjI)
qed

text \<open>
  Claim C4 says that each warning names the lunar year, month and day that failed. The number
  of warnings is the number of projections that report \<^verbatim>\<open>DateNotExist\<close>
  (\<open>generate_ics_warning_count\<close>), but the warning of \<^verbatim>\<open>generate_ics\<close> prints the birthday's
  own \<^verbatim>\<open>year\<close> field, not the year of the loop that was projected: for a birthday of lunar
  1990-12-30 whose projections into 2025 and 2027 fail, both warnings read
  \<^verbatim>\<open>Invalid lunar date: 1990-12-30\<close> and neither names 2025 or 2027.
\<close>

theorem warning_names_birth_year_not_failed_year:
  "project demo_env birthday_C 2025 = Inl DateNotExist \<and> project demo_env birthday_C 2026 = Inr 717564 \<and>
   project demo_env birthday_C 2027 = Inl DateNotExist \<and>
   stdout (snd (generate_ics demo_env [birthday_C] ''out.ics'' 2025 2027 demo_world)) =
     [''Warning: Invalid lunar date: 1990-12-30'', ''Warning: Invalid lunar date: 1990-12-30'']"
proof -
  have p: "project demo_env birthday_C 2025 = Inl DateNotExist" "project demo_env birthday_C 2026 = Inr 717564"
    "project demo_env birthday_C 2027 = Inl DateNotExist"
    by (simp_all add: project_def demo_env_def demo_convert_def birthday_C_def)
  have q: "\<forall>b \<in> set [birthday_C]. \<forall>y \<in> {2025..2027}. \<forall>x.
              project demo_env b y = Inl x \<longrightarrow> x = DateNotExist"
    by (rule demo_quiet_range) simp
  have s: "str_int 1990 = ''1990''" "str_int 12 = ''12''" "str_int 30 = ''30''"
    by (simp_all add: str_int_def str_nat.simps digit_char_def)
  have "warning_line birthday_C = ''Warning: Invalid lunar date: 1990-12-30''"
    by (simp add: warning_line_def birthday_C_def s)
  then have "stdout (snd (generate_ics demo_env [birthday_C] ''out.ics'' 2025 2027 demo_world)) =
     [''Warning: Invalid lunar date: 1990-12-30'', ''Warning: Invalid lunar date: 1990-12-30'']"
    using p by (simp add: generate_ics_ok_stdout[OF q] upto_2025_2027 demo_world_def)
  then show ?thesis using p by simp
qed

section \<open>The loader\<close>

lemma load_row_Inl: "load_row E r = Inl e \<Longrightarrow> \<exists>m. e = ValueError m"
  by (auto simp: load_row_def split: sum.splits)

lemma load_row_bad:
  assumes "(\<exists>m. py_int E (row_year r) = Inl m) \<or> (\<exists>m. py_int E (row_month r) = Inl m) \<or>
           (\<exists>m. py_int E (row_day r) = Inl m)"
  shows "\<exists>m. load_row E r = Inl (ValueError m)"
  using assms by (auto simp: load_row_def split: sum.splits)

lemma load_rows_bad:
  "\<exists>r \<in> set rows. \<exists>m. load_row E r = Inl (ValueError m) \<Longrightarrow>
     \<exists>m. load_rows E rows acc = Inl (ValueError m)"
proof (induction rows arbitrary: acc)
  case Nil
  then show ?case by simp
next
  case (Cons r rows)
  show ?case
  proof (cases "load_row E r")
    case (Inl e)
    then show ?thesis using load_row_Inl[OF Inl] by auto
  next
    case (Inr b)
    then have "\<exists>r \<in> set rows. \<exists>m. load_row E r = Inl (ValueError m)" using Cons.prems by auto
    then show ?thesis using Cons.IH Inr by simp
  qed
qed

lemma read_missing:
  "csv_files w p = None \<Longrightarrow>
     read_lunar_birthdays E p w =
       (Inl (SysExit 1),
        w\<lparr>stdout := stdout w @ [''Error: File '' @ [CHR 0x27] @ p @ [CHR 0x27] @ '' not found.'']\<rparr>)"
  by (simp add: read_lunar_birthdays_def)

lemma read_bad:
  "csv_files w p = Some rows \<Longrightarrow> load_rows E rows [] = Inl (ValueError m) \<Longrightarrow>
     read_lunar_birthdays E p w =
       (Inl (SysExit 1), w\<lparr>stdout := stdout w @ [''Error: Invalid data in CSV file. '' @ m]\<rparr>)"
  by (simp add: read_lunar_birthdays_def)

lemma read_ok:
  "fst (read_lunar_birthdays E p w) = Inr bs \<Longrightarrow> read_lunar_birthdays E p w = (Inr bs, w)"
  by (auto simp: read_lunar_birthdays_def split: option.splits sum.splits exn.splits)

lemma main_load_failure:
  "read_lunar_birthdays E (input_csv a) w = (Inl out, w') \<Longrightarrow> main E a w = (out, w')"
  by (simp add: main_def)

text \<open>
  Claim C7. When the CSV file is missing, or some row of it has a year, month or day that
  \<^verbatim>\<open>int\<close> rejects, the loader returns no list: it prints one line (that the file was not
  found, or that the data is invalid, followed by the text of the \<^verbatim>\<open>ValueError\<close>) and exits;
  the run of \<^verbatim>\<open>main\<close> ends with status 1, and the files written are those written before
  the run, so the run writes none.
\<close>

theorem loader_aborts_run:
  assumes "csv_files w (input_csv a) = None \<or>
           (\<exists>rows. csv_files w (input_csv a) = Some rows \<and>
              (\<exists>r \<in> set rows. (\<exists>m. py_int E (row_year r) = Inl m) \<or>
                               (\<exists>m. py_int E (row_month r) = Inl m) \<or>
                               (\<exists>m. py_int E (row_day r) = Inl m)))"
  shows "\<exists>msg. main E a w = (SysExit 1, w\<lparr>stdout := stdout w @ [msg]\<rparr>) \<and>
           (msg = ''Error: File '' @ [CHR 0x27] @ input_csv a @ [CHR 0x27] @ '' not found.'' \<or>
            (\<exists>m. msg = ''Error: Invalid data in CSV file. '' @ m)) \<and>
           fst (read_lunar_birthdays E (input_csv a) w) = Inl (SysExit 1) \<and>
           exit_status (fst (main E a w)) = 1 \<and>
           written (snd (main E a w)) = written w"
proof (cases "csv_files w (input_csv a)")
  case None
  let ?msg = "''Error: File '' @ [CHR 0x27] @ input_csv a @ [CHR 0x27] @ '' not found.''"
  have r: "read_lunar_birthdays E (input_csv a) w = (Inl (SysExit 1), w\<lparr>stdout := stdout w @ [?msg]\<rparr>)"
    using None by (rule read_missing)
  then have "main E a w = (SysExit 1, w\<lparr>stdout := stdout w @ [?msg]\<rparr>)" by (rule main_load_failure)
  then show ?thesis using r by (intro exI[of _ ?msg]) simp
next
  case (Some rows)
  with assms have "\<exists>r \<in> set rows. (\<exists>m. py_int E (row_year r) = Inl m) \<or>
                               (\<exists>m. py_int E (row_month r) = Inl m) \<or>
                               (\<exists>m. py_int E (row_day r) = Inl m)" by simp
  then have "\<exists>r \<in> set rows. \<exists>m. load_row E r = Inl (ValueError m)"
    using load_row_bad by blast
  then obtain m where m: "load_rows E rows [] = Inl (ValueError m)"
    using load_rows_bad by blast
  let ?msg = "''Error: Invalid data in CSV file. '' @ m"
  have r: "read_lunar_birthdays E (input_csv a) w = (Inl (SysExit 1), w\<lparr>stdout := stdout w @ [?msg]\<rparr>)"
    using Some m by (rule read_bad)
  then have "main E a w = (SysExit 1, w\<lparr>stdout := stdout w @ [?msg]\<rparr>)" by (rule main_load_failure)
  then show ?thesis using r by (intro exI[of _ ?msg]) auto
qed

theorem loader_aborts_run_witness:
  "csv_files demo_world (input_csv args_bad) = Some bad_rows \<and>
   py_int demo_env (row_day (bad_rows ! 1)) =
     Inl (''invalid literal for int() with base 10: '' @ [CHR 0x27] @ ''x'' @ [CHR 0x27]) \<and>
   exit_status (fst (main demo_env args_bad demo_world)) = 1 \<and>
   written (snd (main demo_env args_bad demo_world)) = []"
proof -
  have f: "csv_files demo_world (input_csv args_bad) = Some bad_rows"
    by (simp add: demo_world_def args_bad_def)
  have d: "py_int demo_env (row_day (bad_rows ! 1)) =
     Inl (''invalid literal for int() with base 10: '' @ [CHR 0x27] @ ''x'' @ [CHR 0x27])"
    by (simp add: demo_env_def demo_int_def bad_rows_def is_digit_def)
  have "bad_rows ! 1 \<in> set bad_rows" by (simp add: bad_rows_def)
  with d have "\<exists>r \<in> set bad_rows. (\<exists>m. py_int demo_env (row_year r) = Inl m) \<or>
                               (\<exists>m. py_int demo_env (row_month r) = Inl m) \<or>
                               (\<exists>m. py_int demo_env (row_day r) = Inl m)" by blast
  with f have h: "csv_files demo_world (input_csv args_bad) = None \<or>
           (\<exists>rows. csv_files demo_world (input_csv args_bad) = Some rows \<and>
              (\<exists>r \<in> set rows. (\<exists>m. py_int demo_env (row_year r) = Inl m) \<or>
                               (\<exists>m. py_int demo_env (row_month r) = Inl m) \<or>
                               (\<exists>m. py_int demo_env (row_day r) = Inl m)))" by blast
  from loader_aborts_run[OF h]
  have "exit_status (fst (main demo_env args_bad demo_world)) = 1"
    and "written (snd (main demo_env args_bad demo_world)) = written demo_world" by blast+
  then show ?thesis using f d by (simp add: demo_world_def)
qed

section \<open>The year windows of the File Batcher\<close>

text \<open>The arithmetic of the windows: lines 135-136 for a positive number of years and batch size.\<close>

lemma windows_shape:
  assumes "0 < years a" and "0 < batch_size a"
  shows "windows a \<noteq> [] \<and>
         fst (hd (windows a)) = start_year a \<and>
         snd (last (windows a)) = start_year a + years a - 1 \<and>
         (\<forall>j. Suc j < length (windows a) \<longrightarrow> fst (windows a ! Suc j) = snd (windows a ! j) + 1) \<and>
         (\<forall>(lo, hi) \<in> set (windows a). lo \<le> hi \<and> hi - lo + 1 \<le> batch_size a) \<and>
         concat (map (\<lambda>(lo, hi). [lo..hi]) (windows a)) = [start_year a..start_year a + years a - 1] \<and>
         windows (a\<lparr>start_year := 2024, years := 120, batch_size := 50\<rparr>) =
           [(2024, 2073), (2074, 2123), (2124, 2143)]"
proof -
  let ?s = "start_year a" and ?k = "batch_size a"
  let ?stop = "start_year a + years a"
  let ?ys = "range_up ?s ?stop ?k"
  have k: "0 < ?k" and lt: "?s < ?stop" using assms by simp_all
  have w: "windows a = map (\<lambda>y. (y, window_end a y)) ?ys" using k by (rule windows_up)
  have c: "?ys = ?s # range_up (?s + ?k) ?stop ?k" using k lt by (rule range_up_cons)
  have ne: "?ys \<noteq> []" using c by simp
  have p1: "windows a \<noteq> []" using w ne by simp
  have p2: "fst (hd (windows a)) = ?s" using w c by simp
  have "?stop \<le> last ?ys + ?k" using k lt by (rule range_up_last)
  moreover have "last ?ys < ?stop" using range_up_bounds[OF k, of "last ?ys" ?s ?stop] ne by simp
  ultimately have "window_end a (last ?ys) = ?stop - 1" by (simp add: window_end_def)
  then have p3: "snd (last (windows a)) = ?s + years a - 1" using w ne by (simp add: last_map)
  have p4: "\<forall>j. Suc j < length (windows a) \<longrightarrow> fst (windows a ! Suc j) = snd (windows a ! j) + 1"
  proof (intro allI impI)
    fix j assume "Suc j < length (windows a)"
    then have j: "Suc j < length ?ys" using w by simp
    from range_up_adjacent[OF k j]
    have "?ys ! Suc j = ?ys ! j + ?k" and "?ys ! Suc j < ?stop" by simp_all
    then have "window_end a (?ys ! j) = ?ys ! Suc j - 1" by (simp add: window_end_def)
    then show "fst (windows a ! Suc j) = snd (windows a ! j) + 1" using w j by simp
  qed
  have p5: "\<forall>(lo, hi) \<in> set (windows a). lo \<le> hi \<and> hi - lo + 1 \<le> batch_size a"
  proof -
    have "y \<le> window_end a y \<and> window_end a y - y + 1 \<le> ?k" if "y \<in> set ?ys" for y
      using range_up_bounds[OF k that] k by (simp add: window_end_def)
    then show ?thesis using w by auto
  qed
  have "concat (map (\<lambda>(lo, hi). [lo..hi]) (windows a)) =
        concat (map (\<lambda>y. [y..min (y + ?k - 1) (?stop - 1)]) ?ys)"
    using w by (simp add: window_end_def comp_def)
  then have p6: "concat (map (\<lambda>(lo, hi). [lo..hi]) (windows a)) = [?s..?s + years a - 1]"
    using range_up_cover[OF k, of ?stop ?s] by simp
  have p7: "windows (a\<lparr>start_year := 2024, years := 120, batch_size := 50\<rparr>) =
           [(2024, 2073), (2074, 2123), (2124, 2143)]"
    by (simp add: windows_def py_range3_def window_end_def range_up.simps)
  show ?thesis using p1 p2 p3 p4 p5 p6 p7 by blast
qed

text \<open>
  What \<^verbatim>\<open>main\<close> does with the windows: it calls \<^verbatim>\<open>generate_ics\<close> for each in turn, and stops
  with the exception at the first window in which a projection raises something other than
  \<^verbatim>\<open>DateNotExist\<close>. So the files written are those of the first windows, and of all windows
  when nothing is raised; the file of a window holds the events of exactly its years.
\<close>

lemma main_loaded:
  "fst (read_lunar_birthdays E (input_csv a) w) = Inr bs \<Longrightarrow>
     main E a w =
       (case py_range3 (start_year a) (start_year a + years a) (batch_size a) of
          Inl e \<Rightarrow> (Uncaught e, w)
        | Inr ys \<Rightarrow> window_loop E a bs ys w)"
  by (simp add: main_def read_ok)

lemma window_loop_files_prefix:
  "\<exists>n \<le> length ys. map fst (written (snd (window_loop E a bs ys w))) =
                      map fst (written w) @ map (window_path a) (take n ys)"
proof (induction ys arbitrary: w)
  case Nil
  show ?case by simp
next
  case (Cons y ys)
  let ?g = "generate_ics E bs (window_path a y) y (window_end a y) w"
  obtain r w' where g: "?g = (r, w')" by (cases ?g)
  from generate_ics_written_cases[of E bs "window_path a y" y "window_end a y" w]
  show ?case
  proof
    assume "fst ?g = None \<and> (\<exists>cal. written (snd ?g) = written w @ [(window_path a y, cal)])"
    then obtain cal where r: "r = None" and wr: "written w' = written w @ [(window_path a y, cal)]"
      using g by auto
    let ?w'' = "w'\<lparr>stdout := stdout w' @ [''ICS file generated successfully: '' @ window_path a y]\<rparr>"
    from Cons.IH[of ?w''] obtain n where n: "n \<le> length ys"
      and eq: "map fst (written (snd (window_loop E a bs ys ?w''))) =
               map fst (written ?w'') @ map (window_path a) (take n ys)" by blast
    have "map fst (written (snd (window_loop E a bs (y # ys) w))) =
          map fst (written w) @ map (window_path a) (take (Suc n) (y # ys))"
      using g r wr eq by simp
    moreover have "Suc n \<le> length (y # ys)" using n by simp
    ultimately show ?thesis by blast
  next
    assume "fst ?g \<noteq> None \<and> written (snd ?g) = written w"
    then obtain x where r: "r = Some x" and wr: "written w' = written w" using g by auto
    have "map fst (written (snd (window_loop E a bs (y # ys) w))) =
          map fst (written w) @ map (window_path a) (take 0 (y # ys))"
      using g r wr by simp
    then show ?thesis by blast
  qed
qed

lemma window_loop_ok:
  assumes "\<forall>b \<in> set bs. \<forall>y \<in> set ys. \<forall>yr \<in> {y..window_end a y}. \<forall>x.
             project E b yr = Inl x \<longrightarrow> x = DateNotExist"
  shows "fst (window_loop E a bs ys w) = Returned \<and>
     map (\<lambda>(p, cal). (p, map dtstart (components cal))) (written (snd (window_loop E a bs ys w))) =
     map (\<lambda>(p, cal). (p, map dtstart (components cal))) (written w) @
       map (\<lambda>y. (window_path a y,
                  map (\<lambda>(b, yr). projr (project E b yr))
                      (filter (\<lambda>(b, yr). \<not> isl (project E b yr))
                              (List.product bs [y..window_end a y])))) ys"
  using assms
proof (induction ys arbitrary: w)
  case Nil
  show ?case by simp
next
  case (Cons y ys)
  let ?g = "generate_ics E bs (window_path a y) y (window_end a y) w"
  have q: "\<forall>b \<in> set bs. \<forall>yr \<in> {y..window_end a y}. \<forall>x. project E b yr = Inl x \<longrightarrow> x = DateNotExist"
    using Cons.prems by simp
  have t: "\<forall>b \<in> set bs. \<forall>y \<in> set ys. \<forall>yr \<in> {y..window_end a y}. \<forall>x.
             project E b yr = Inl x \<longrightarrow> x = DateNotExist"
    using Cons.prems by simp
  have f: "fst ?g = None" using q by (rule generate_ics_ok_fst)
  then have g: "?g = (None, snd ?g)" by (simp add: prod_eq_iff)
  let ?w'' = "(snd ?g)\<lparr>stdout := stdout (snd ?g) @ [''ICS file generated successfully: '' @ window_path a y]\<rparr>"
  have step: "window_loop E a bs (y # ys) w = window_loop E a bs ys ?w''"
    by (subst window_loop.simps, subst g) simp
  have d: "map (\<lambda>(p, cal). (p, map dtstart (components cal))) (written ?w'') =
     map (\<lambda>(p, cal). (p, map dtstart (components cal))) (written w) @
       [(window_path a y, map (\<lambda>(b, yr). projr (project E b yr))
                   (filter (\<lambda>(b, yr). \<not> isl (project E b yr)) (List.product bs [y..window_end a y])))]"
    using generate_ics_dates[OF q, of "window_path a y" w] by simp
  show ?case using Cons.IH[OF t, of ?w''] by (simp only: step d) simp
qed

lemma map_fst_dates:
  "map fst (map (\<lambda>(p, cal). (p, map dtstart (components cal))) xs) = map fst xs"
  by (induction xs) auto

lemma window_loop_files:
  assumes "\<forall>b \<in> set bs. \<forall>y \<in> set ys. \<forall>yr \<in> {y..window_end a y}. \<forall>x.
             project E b yr = Inl x \<longrightarrow> x = DateNotExist"
  shows "map fst (written (snd (window_loop E a bs ys w))) = map fst (written w) @ map (window_path a) ys"
proof -
  from window_loop_ok[OF assms, of w]
  have "map fst (map (\<lambda>(p, cal). (p, map dtstart (components cal))) (written (snd (window_loop E a bs ys w)))) =
        map fst (map (\<lambda>(p, cal). (p, map dtstart (components cal))) (written w) @
                 map (\<lambda>y. (window_path a y,
                  map (\<lambda>(b, yr). projr (project E b yr))
                      (filter (\<lambda>(b, yr). \<not> isl (project E b yr))
                              (List.product bs [y..window_end a y])))) ys)"
    by simp
  then show ?thesis by (simp add: comp_def case_prod_unfold)
qed

lemma demo_load:
  "fst (read_lunar_birthdays demo_env ''birthdays.csv'' demo_world) = Inr [birthday_A, birthday_C]"
  by (simp add: read_lunar_birthdays_def demo_world_def good_rows_def load_row_def demo_env_def
      demo_int_def is_digit_def birthday_A_def birthday_C_def)

lemma str_int_examples:
  "str_int 2024 = ''2024''" "str_int 2025 = ''2025''" "str_int 2026 = ''2026''"
  "str_int 2027 = ''2027''" "str_int 2028 = ''2028''"
  by (simp_all add: str_int_def str_nat.simps digit_char_def)

lemma windows_small: "windows args_small = [(2024, 2025), (2026, 2027), (2028, 2028)]"
  by (simp add: args_small_def windows_def py_range3_def window_end_def range_up.simps)

text \<open>
  Claim C1. For a positive number of years and a positive batch size, the windows that the
  loop of \<^verbatim>\<open>main\<close> visits partition the years from \<open>start_year\<close> to
  \<open>start_year + years - 1\<close>: there is at least one window, the first starts at
  \<open>start_year\<close>, the last ends at \<open>start_year + years - 1\<close>, each window starts one year
  after the previous one ends, no window is empty or longer than \<open>batch_size\<close>, and the
  years of the windows, listed window after window, are exactly the requested years in
  increasing order (so every year lies in exactly one window). For start year 2024, 120 years
  and batch size 50 the windows are 2024-2073, 2074-2123 and 2124-2143. These windows are the
  ones \<^verbatim>\<open>main\<close> works on: once the CSV file has loaded, and when no projection in the
  requested years raises an exception other than \<^verbatim>\<open>DateNotExist\<close>, \<^verbatim>\<open>main\<close> returns having
  written one file per window, in order, and the start dates in the file of a window are the
  projected dates of the records into the years of that window.
\<close>

theorem windows_partition:
  assumes "0 < years a" and "0 < batch_size a"
  shows "windows a \<noteq> [] \<and>
         fst (hd (windows a)) = start_year a \<and>
         snd (last (windows a)) = start_year a + years a - 1 \<and>
         (\<forall>j. Suc j < length (windows a) \<longrightarrow> fst (windows a ! Suc j) = snd (windows a ! j) + 1) \<and>
         (\<forall>(lo, hi) \<in> set (windows a). lo \<le> hi \<and> hi - lo + 1 \<le> batch_size a) \<and>
         concat (map (\<lambda>(lo, hi). [lo..hi]) (windows a)) = [start_year a..start_year a + years a - 1] \<and>
         windows (a\<lparr>start_year := 2024, years := 120, batch_size := 50\<rparr>) =
           [(2024, 2073), (2074, 2123), (2124, 2143)] \<and>
         (fst (read_lunar_birthdays E (input_csv a) w) = Inr bs \<and>
          (\<forall>b \<in> set bs. \<forall>y \<in> {start_year a..start_year a + years a - 1}. \<forall>x.
             project E b y = Inl x \<longrightarrow> x = DateNotExist) \<longrightarrow>
          fst (main E a w) = Returned \<and>
          map (\<lambda>(p, cal). (p, map dtstart (components cal))) (written (snd (main E a w))) =
            map (\<lambda>(p, cal). (p, map dtstart (components cal))) (written w) @
            map (\<lambda>(lo, hi). (window_path a lo,
                    map (\<lambda>(b, y). projr (project E b y))
                        (filter (\<lambda>(b, y). \<not> isl (project E b y)) (List.product bs [lo..hi]))))
                (windows a))"
proof -
  let ?s = "start_year a" and ?k = "batch_size a"
  let ?stop = "start_year a + years a"
  let ?ys = "range_up ?s ?stop ?k"
  have k: "0 < ?k" using assms by simp
  have w: "windows a = map (\<lambda>y. (y, window_end a y)) ?ys" using k by (rule windows_up)
  have r: "py_range3 ?s ?stop ?k = Inr ?ys" using k by (simp add: py_range3_def)
  have link: "fst (main E a w) = Returned \<and>
          map (\<lambda>(p, cal). (p, map dtstart (components cal))) (written (snd (main E a w))) =
            map (\<lambda>(p, cal). (p, map dtstart (components cal))) (written w) @
            map (\<lambda>(lo, hi). (window_path a lo,
                    map (\<lambda>(b, y). projr (project E b y))
                        (filter (\<lambda>(b, y). \<not> isl (project E b y)) (List.product bs [lo..hi]))))
                (windows a)"
    if l: "fst (read_lunar_birthdays E (input_csv a) w) = Inr bs"
      and q: "\<forall>b \<in> set bs. \<forall>y \<in> {?s..?s + years a - 1}. \<forall>x. project E b y = Inl x \<longrightarrow> x = DateNotExist"
  proof -
    have m: "main E a w = window_loop E a bs ?ys w" using main_loaded[OF l] r by simp
    have q': "\<forall>b \<in> set bs. \<forall>y \<in> set ?ys. \<forall>yr \<in> {y..window_end a y}. \<forall>x.
                project E b yr = Inl x \<longrightarrow> x = DateNotExist"
    proof (intro ballI allI impI)
      fix b y yr x
      assume b: "b \<in> set bs" and y: "y \<in> set ?ys" and yr: "yr \<in> {y..window_end a y}"
        and p: "project E b yr = Inl x"
      have "?s \<le> y" using range_up_bounds[OF k y] by simp
      moreover have "window_end a y \<le> ?s + years a - 1" by (simp add: window_end_def)
      ultimately have "yr \<in> {?s..?s + years a - 1}" using yr by simp
      with q b p show "x = DateNotExist" by blast
    qed
    show ?thesis using window_loop_ok[OF q', of w] by (simp add: m w comp_def)
  qed
  show ?thesis using windows_shape[OF assms] link by blast
qed

theorem windows_partition_witness:
  "0 < years args_small \<and> 0 < batch_size args_small \<and>
   fst (read_lunar_birthdays demo_env (input_csv args_small) demo_world) = Inr [birthday_A, birthday_C] \<and>
   windows args_small = [(2024, 2025), (2026, 2027), (2028, 2028)] \<and>
   concat (map (\<lambda>(lo, hi). [lo..hi]) (windows args_small)) = [2024..2028] \<and>
   windows (args_small\<lparr>start_year := 2024, years := 120, batch_size := 50\<rparr>) =
     [(2024, 2073), (2074, 2123), (2124, 2143)] \<and>
   fst (main demo_env args_small demo_world) = Returned \<and>
   map (\<lambda>(p, cal). (p, map dtstart (components cal))) (written (snd (main demo_env args_small demo_world))) =
     [(''out_2024-2025.ics'', [716511, 716865, 716856]),
      (''out_2026-2027.ics'', [717219, 717573, 717564]),
      (''out_2028.ics'', [717927, 718272])]"
proof -
  have h1: "0 < years args_small" and h2: "0 < batch_size args_small"
    by (simp_all add: args_small_def)
  have l: "fst (read_lunar_birthdays demo_env (input_csv args_small) demo_world) = Inr [birthday_A, birthday_C]"
    using demo_load by (simp add: args_small_def)
  have q: "\<forall>b \<in> set [birthday_A, birthday_C].
             \<forall>y \<in> {start_year args_small..start_year args_small + years args_small - 1}. \<forall>x.
             project demo_env b y = Inl x \<longrightarrow> x = DateNotExist"
    by (rule demo_quiet_range) (simp add: args_small_def)
  note t = windows_partition[OF h1 h2, of demo_env demo_world "[birthday_A, birthday_C]"]
  have c: "concat (map (\<lambda>(lo, hi). [lo..hi]) (windows args_small)) = [2024..2028]"
    using t by (simp add: args_small_def)
  have b: "windows (args_small\<lparr>start_year := 2024, years := 120, batch_size := 50\<rparr>) =
     [(2024, 2073), (2074, 2123), (2124, 2143)]"
    using t by blast
  from t l q have r: "fst (main demo_env args_small demo_world) = Returned"
    and d: "map (\<lambda>(p, cal). (p, map dtstart (components cal))) (written (snd (main demo_env args_small demo_world))) =
            map (\<lambda>(p, cal). (p, map dtstart (components cal))) (written demo_world) @
            map (\<lambda>(lo, hi). (window_path args_small lo,
                    map (\<lambda>(b, y). projr (project demo_env b y))
                        (filter (\<lambda>(b, y). \<not> isl (project demo_env b y))
                                (List.product [birthday_A, birthday_C] [lo..hi]))))
                (windows args_small)"
    by blast+
  have p: "window_path args_small 2024 = ''out_2024-2025.ics''"
    "window_path args_small 2026 = ''out_2026-2027.ics''"
    "window_path args_small 2028 = ''out_2028.ics''"
    by (simp_all add: window_path_def window_end_def args_small_def str_int_examples)
  have u: "[2024..2025] = [2024, 2025::int]" "[2026..2027] = [2026, 2027::int]" "[2028..2028] = [2028::int]"
    by (simp_all add: upto_rec1)
  from d have d': "map (\<lambda>(p, cal). (p, map dtstart (components cal))) (written (snd (main demo_env args_small demo_world))) =
     [(''out_2024-2025.ics'', [716511, 716865, 716856]),
      (''out_2026-2027.ics'', [717219, 717573, 717564]),
      (''out_2028.ics'', [717927, 718272])]"
    by (simp add: windows_small p u demo_world_def project_def demo_env_def demo_convert_def
        birthday_A_def birthday_C_def)
  from h1 h2 l windows_small c b r d' show ?thesis by (intro conjI)
qed

text \<open>
  Claim C8. Once the CSV file has loaded, the files that \<^verbatim>\<open>main\<close> writes are, in order, those
  of the first windows (of all windows when no projection raises an exception other than
  \<^verbatim>\<open>DateNotExist\<close>), and the file of a window is named \<^verbatim>\<open><prefix>_<year>.ics\<close> when the
  window's first and last year are the same and \<^verbatim>\<open><prefix>_<start>-<end>.ics\<close> otherwise. With
  5 years from 2024 in batches of 2 the names are \<^verbatim>\<open>out_2024-2025.ics\<close>,
  \<^verbatim>\<open>out_2026-2027.ics\<close> and \<^verbatim>\<open>out_2028.ics\<close>.
\<close>

theorem window_file_names:
  assumes "fst (read_lunar_birthdays E (input_csv a) w) = Inr bs"
  shows "(\<exists>n \<le> length (windows a).
            map fst (written (snd (main E a w))) =
              map fst (written w) @
              map (\<lambda>(lo, hi). if lo = hi
                     then output_ics_prefix a @ ''_'' @ str_int lo @ ''.ics''
                     else output_ics_prefix a @ ''_'' @ str_int lo @ ''-'' @ str_int hi @ ''.ics'')
                  (take n (windows a))) \<and>
         ((\<forall>b \<in> set bs. \<forall>(lo, hi) \<in> set (windows a). \<forall>y \<in> {lo..hi}. \<forall>x.
             project E b y = Inl x \<longrightarrow> x = DateNotExist) \<longrightarrow>
          map fst (written (snd (main E a w))) =
            map fst (written w) @
            map (\<lambda>(lo, hi). if lo = hi
                   then output_ics_prefix a @ ''_'' @ str_int lo @ ''.ics''
                   else output_ics_prefix a @ ''_'' @ str_int lo @ ''-'' @ str_int hi @ ''.ics'')
                (windows a))"
proof (cases "py_range3 (start_year a) (start_year a + years a) (batch_size a)")
  case (Inl e)
  then have "windows a = []" and "main E a w = (Uncaught e, w)"
    using main_loaded[OF assms] by (simp_all add: windows_def)
  then show ?thesis by simp
next
  case (Inr ys)
  let ?name = "\<lambda>(lo, hi). if lo = hi
                     then output_ics_prefix a @ ''_'' @ str_int lo @ ''.ics''
                     else output_ics_prefix a @ ''_'' @ str_int lo @ ''-'' @ str_int hi @ ''.ics''"
  have w: "windows a = map (\<lambda>y. (y, window_end a y)) ys" using Inr by (simp add: windows_def)
  have m: "main E a w = window_loop E a bs ys w" using main_loaded[OF assms] Inr by simp
  have nm: "map ?name (map (\<lambda>y. (y, window_end a y)) zs) = map (window_path a) zs" for zs
    by (simp add: window_path_def comp_def)
  from window_loop_files_prefix[of ys E a bs w] obtain n where n: "n \<le> length ys"
    and eq: "map fst (written (snd (window_loop E a bs ys w))) =
             map fst (written w) @ map (window_path a) (take n ys)" by blast
  have "map ?name (take n (windows a)) = map (window_path a) (take n ys)"
    by (simp only: w take_map nm)
  then have 1: "\<exists>n \<le> length (windows a).
            map fst (written (snd (main E a w))) = map fst (written w) @ map ?name (take n (windows a))"
    using n eq m w by (intro exI[of _ n]) simp
  have 2: "map fst (written (snd (main E a w))) = map fst (written w) @ map ?name (windows a)"
    if q: "\<forall>b \<in> set bs. \<forall>(lo, hi) \<in> set (windows a). \<forall>y \<in> {lo..hi}. \<forall>x.
             project E b y = Inl x \<longrightarrow> x = DateNotExist"
  proof -
    have q': "\<forall>b \<in> set bs. \<forall>y \<in> set ys. \<forall>yr \<in> {y..window_end a y}. \<forall>x.
                project E b yr = Inl x \<longrightarrow> x = DateNotExist"
    proof (intro ballI allI impI)
      fix b y yr x
      assume b: "b \<in> set bs" and y: "y \<in> set ys" and yr: "yr \<in> {y..window_end a y}"
        and p: "project E b yr = Inl x"
      have "(y, window_end a y) \<in> set (windows a)" using y w by simp
      with q b yr p show "x = DateNotExist" by blast
    qed
    have "map ?name (windows a) = map (window_path a) ys" by (simp only: w nm)
    then show ?thesis using window_loop_files[OF q', of w] m by simp
  qed
  show ?thesis using 1 2 by blast
qed

theorem window_file_names_witness:
  "fst (read_lunar_birthdays demo_env (input_csv args_small) demo_world) = Inr [birthday_A, birthday_C] \<and>
   windows args_small = [(2024, 2025), (2026, 2027), (2028, 2028)] \<and>
   map fst (written (snd (main demo_env args_small demo_world))) =
     [''out_2024-2025.ics'', ''out_2026-2027.ics'', ''out_2028.ics'']"
proof -
  have l: "fst (read_lunar_birthdays demo_env (input_csv args_small) demo_world) = Inr [birthday_A, birthday_C]"
    using demo_load by (simp add: args_small_def)
  have q: "\<forall>b \<in> set [birthday_A, birthday_C]. \<forall>(lo, hi) \<in> set (windows args_small). \<forall>y \<in> {lo..hi}. \<forall>x.
             project demo_env b y = Inl x \<longrightarrow> x = DateNotExist"
  proof (intro ballI allI impI, clarify)
    fix b lo hi y x
    assume "(lo, hi) \<in> set (windows args_small)" and "y \<in> {lo..hi}" and p: "project demo_env b y = Inl x"
    then have "y \<le> 2111" by (auto simp: windows_small)
    then show "x = DateNotExist" using p by (rule demo_quiet)
  qed
  have p: "output_ics_prefix args_small = ''out''" by (simp add: args_small_def)
  from window_file_names[OF l] q
  have "map fst (written (snd (main demo_env args_small demo_world))) =
            map fst (written demo_world) @
            map (\<lambda>(lo, hi). if lo = hi
                   then output_ics_prefix args_small @ ''_'' @ str_int lo @ ''.ics''
                   else output_ics_prefix args_small @ ''_'' @ str_int lo @ ''-'' @ str_int hi @ ''.ics'')
                (windows args_small)"
    by blast
  then have "map fst (written (snd (main demo_env args_small demo_world))) =
     [''out_2024-2025.ics'', ''out_2026-2027.ics'', ''out_2028.ics'']"
    by (simp add: windows_small p str_int_examples demo_world_def)
  with l windows_small show ?thesis by (intro conjI)
qed

text \<open>
  Claim C10. With a number of years that is zero or negative and a positive batch size,
  once the CSV file has loaded there is no window: the loop of \<^verbatim>\<open>main\<close> runs no iteration,
  the world is left as it was (no file written, nothing printed) and \<^verbatim>\<open>main\<close> returns, so
  the exit status is 0.
\<close>

theorem no_years_no_files:
  assumes "years a \<le> 0" and "0 < batch_size a"
    and "fst (read_lunar_birthdays E (input_csv a) w) = Inr bs"
  shows "windows a = [] \<and> main E a w = (Returned, w) \<and> exit_status (fst (main E a w)) = 0 \<and>
         written (snd (main E a w)) = written w"
proof -
  have r: "range_up (start_year a) (start_year a + years a) (batch_size a) = []"
    using assms(1) by (simp add: range_up_nil)
  then have 1: "windows a = []" using assms(2) by (simp add: windows_def py_range3_def)
  have 2: "main E a w = (Returned, w)"
    using main_loaded[OF assms(3)] assms(2) r by (simp add: py_range3_def)
  show ?thesis using 1 2 by simp
qed

theorem no_years_no_files_witness:
  "years (args_2024\<lparr>years := 0\<rparr>) \<le> 0 \<and> 0 < batch_size (args_2024\<lparr>years := 0\<rparr>) \<and>
   main demo_env (args_2024\<lparr>years := 0\<rparr>) demo_world = (Returned, demo_world) \<and>
   exit_status (fst (main demo_env (args_2024\<lparr>years := 0\<rparr>) demo_world)) = 0 \<and>
   written (snd (main demo_env (args_2024\<lparr>years := 0\<rparr>) demo_world)) = []"
proof -
  have h1: "years (args_2024\<lparr>years := 0\<rparr>) \<le> 0" by simp
  have h2: "0 < batch_size (args_2024\<lparr>years := 0\<rparr>)" by (simp add: args_2024_def)
  have h3: "fst (read_lunar_birthdays demo_env (input_csv (args_2024\<lparr>years := 0\<rparr>)) demo_world) =
              Inr [birthday_A, birthday_C]"
    using demo_load by (simp add: args_2024_def)
  have "written demo_world = []" by (simp add: demo_world_def)
  then show ?thesis using no_years_no_files[OF h1 h2 h3] h1 h2 by simp
qed

text \<open>
  With the stand-in converter, 120 years from 2024 in batches of 50 do not reach the third
  window: the second one contains the lunar year 2112, so the run ends with an uncaught
  exception after writing the file of the first window only.
\<close>

lemma demo_run_2024_aborts:
  "\<exists>x. fst (main demo_env args_2024 demo_world) = Uncaught x"
  "map fst (written (snd (main demo_env args_2024 demo_world))) = [''out_2024-2073.ics'']"
proof -
  let ?bs = "[birthday_A, birthday_C]"
  have l: "fst (read_lunar_birthdays demo_env (input_csv args_2024) demo_world) = Inr ?bs"
    using demo_load by (simp add: args_2024_def)
  have r: "py_range3 (start_year args_2024) (start_year args_2024 + years args_2024) (batch_size args_2024) =
           Inr [2024, 2074, 2124]"
    by (simp add: args_2024_def py_range3_def range_up.simps)
  have m: "main demo_env args_2024 demo_world = window_loop demo_env args_2024 ?bs [2024, 2074, 2124] demo_world"
    using main_loaded[OF l] r by simp
  have e1: "window_end args_2024 2024 = 2073" and e2: "window_end args_2024 2074 = 2123"
    by (simp_all add: window_end_def args_2024_def)
  have s: "str_int 2024 = ''2024''" "str_int 2073 = ''2073''"
    by (simp_all add: str_int_def str_nat.simps digit_char_def)
  have pre: "output_ics_prefix args_2024 = ''out''" by (simp add: args_2024_def)
  have p1: "window_path args_2024 2024 = ''out_2024-2073.ics''"
    by (simp add: window_path_def e1 s pre)
  let ?g1 = "generate_ics demo_env ?bs (window_path args_2024 2024) 2024 (window_end args_2024 2024) demo_world"
  have q1: "\<forall>b \<in> set ?bs. \<forall>y \<in> {2024..window_end args_2024 2024}. \<forall>x.
              project demo_env b y = Inl x \<longrightarrow> x = DateNotExist"
    by (rule demo_quiet_range) (simp add: e1)
  have f1: "fst ?g1 = None" using q1 by (rule generate_ics_ok_fst)
  then have g1: "?g1 = (None, snd ?g1)" by (simp add: prod_eq_iff)
  from generate_ics_written_cases[of demo_env ?bs "window_path args_2024 2024" 2024 "window_end args_2024 2024" demo_world] f1
  obtain cal where w1: "written (snd ?g1) = written demo_world @ [(window_path args_2024 2024, cal)]" by auto
  let ?w1 = "(snd ?g1)\<lparr>stdout := stdout (snd ?g1) @ [''ICS file generated successfully: '' @ window_path args_2024 2024]\<rparr>"
  let ?g2 = "generate_ics demo_env ?bs (window_path args_2024 2074) 2074 (window_end args_2024 2074) ?w1"
  have "project demo_env birthday_A 2112 = Inl IndexError"
    by (simp add: project_def demo_env_def demo_convert_def)
  moreover have "birthday_A \<in> set ?bs" and "(2112::int) \<in> {2074..window_end args_2024 2074}"
    by (simp_all add: e2)
  ultimately have "\<exists>b \<in> set ?bs. \<exists>y \<in> {2074..window_end args_2024 2074}. \<exists>x.
      project demo_env b y = Inl x \<and> x \<noteq> DateNotExist" by blast
  from generate_ics_raises[OF this, of "window_path args_2024 2074" ?w1]
  obtain x where f2: "fst ?g2 = Some x" and w2: "written (snd ?g2) = written ?w1" by auto
  then have g2: "?g2 = (Some x, snd ?g2)" by (simp add: prod_eq_iff)
  have step1: "window_loop demo_env args_2024 ?bs [2024, 2074, 2124] demo_world =
               window_loop demo_env args_2024 ?bs [2074, 2124] ?w1"
    by (subst window_loop.simps, subst g1) simp
  have step2: "window_loop demo_env args_2024 ?bs [2074, 2124] ?w1 = (Uncaught x, snd ?g2)"
    by (subst window_loop.simps, subst g2) simp
  have res: "main demo_env args_2024 demo_world = (Uncaught x, snd ?g2)"
    by (simp only: m step1 step2)
  have wr: "written (snd ?g2) = [(''out_2024-2073.ics'', cal)]"
    using w2 w1 by (simp add: p1 demo_world_def)
  show "\<exists>x. fst (main demo_env args_2024 demo_world) = Uncaught x"
    by (simp only: res fst_conv) blast
  show "map fst (written (snd (main demo_env args_2024 demo_world))) = [''out_2024-2073.ics'']"
    by (simp only: res snd_conv wr) simp
qed

section \<open>Single-conversion mode\<close>

lemma birthday_loop_single_written:
  "written (snd (snd (birthday_loop_single E bs cw))) = written (snd cw)"
proof (induction bs arbitrary: cw)
  case Nil
  show ?case by simp
next
  case (Cons b bs)
  obtain cal w where cw: "cw = (cal, w)" by (cases cw)
  show ?case unfolding cw
    by (cases "project E b (year b)") (simp_all add: create_birthday_event_single_def Cons.IH)
qed





end
